theory Spec2Isabelle
  imports Complex_Main "HOL-Library.AList"
begin

section \<open>Icon pipeline of scripts/icons/process\_icons.py\<close>

text \<open>
  The script edits an SVG document held as an \<^verbatim>\<open>xml.etree.ElementTree\<close> tree and drives
  an external image tool. The embedding follows the script function by function.
\<close>

subsection \<open>Documents\<close>

text \<open>
  An \<^verbatim>\<open>ET.Element\<close> has a tag, an attribute dictionary, optional text and tail, and an
  ordered list of children. The attribute dictionary is a Python \<^verbatim>\<open>dict\<close>: keys are
  unique and keep their insertion order, so it is an association list; \<^verbatim>\<open>d[k]\<close> and
  \<^verbatim>\<open>k in d\<close> read it with \<^const>\<open>map_of\<close>, and \<^verbatim>\<open>d[k] = v\<close> (which
  \<^verbatim>\<open>Element.set\<close> performs) is \<^const>\<open>AList.update\<close>: the value is replaced in place
  when the key is present and the pair is added at the end otherwise.
\<close>

type_synonym attribs = "(string \<times> string) list"

datatype element =
  Element (tag: string) (attrib: attribs) (elem_text: "string option")
    (elem_tail: "string option") (children: "element list")

definition SVG_g :: string where
  "SVG_g = ''{http://www.w3.org/2000/svg}g''"

definition SVG_rect :: string where
  "SVG_rect = ''{http://www.w3.org/2000/svg}rect''"

definition SVG_svg :: string where
  "SVG_svg = ''{http://www.w3.org/2000/svg}svg''"

text \<open>\<^verbatim>\<open>ET.Element(tag, attrib)\<close>: a fresh element without text, tail or children.\<close>

definition new_Element :: "string \<Rightarrow> attribs \<Rightarrow> element" where
  "new_Element t a = Element t a None None []"

text \<open>\<^verbatim>\<open>parent.append(child)\<close>.\<close>

fun append_child :: "element \<Rightarrow> element \<Rightarrow> element" where
  "append_child (Element t a tx ta cs) c = Element t a tx ta (cs @ [c])"

subsection \<open>Decimal text of an integer\<close>

text \<open>\<^verbatim>\<open>str(n)\<close> on a Python \<^verbatim>\<open>int\<close>: the decimal digits, with a minus sign when negative.\<close>

definition digit_char :: "nat \<Rightarrow> char" where
  "digit_char d = char_of (48 + d)"

fun str_nat :: "nat \<Rightarrow> string" where
  "str_nat n = (if n < 10 then [digit_char n] else str_nat (n div 10) @ [digit_char (n mod 10)])"

declare str_nat.simps [simp del]

definition str_int :: "int \<Rightarrow> string" where
  "str_int i = (if i < 0 then CHR ''-'' # str_nat (nat (- i)) else str_nat (nat i))"

subsection \<open>The pads (\<^verbatim>\<open>create_pads\<close>)\<close>

text \<open>The local constants of \<^verbatim>\<open>create_pads\<close>, lines 26 to 49.\<close>

definition size_pad :: int where
  "size_pad = 85"

definition gap :: int where
  "gap = 14"

definition start_x :: int where
  "start_x = 109"

definition start_y :: int where
  "start_y = 260"

definition pads_coords :: "(int \<times> int) list" where
  "pads_coords =
     [(start_x, start_y), (start_x + size_pad + gap, start_y),
      (start_x, start_y + size_pad + gap), (start_x + size_pad + gap, start_y + size_pad + gap)]"

text \<open>The body of the loop at lines 51 to 61: one \<^verbatim>\<open>rect\<close> per coordinate pair.\<close>

definition pad_rect :: "string \<Rightarrow> int \<times> int \<Rightarrow> element" where
  "pad_rect color xy =
     new_Element SVG_rect
       [(''x'', str_int (fst xy)),
        (''y'', str_int (snd xy)),
        (''width'', str_int size_pad),
        (''height'', str_int size_pad),
        (''rx'', ''10''),
        (''ry'', ''10''),
        (''fill'', color)]"

definition create_pads :: "string \<Rightarrow> element" where
  "create_pads color =
     fold (\<lambda>xy g. append_child g (pad_rect color xy)) pads_coords
       (new_Element SVG_g [(''id'', ''midi-pads'')])"

subsection \<open>Python floats\<close>

text \<open>
  \<^verbatim>\<open>make_square\<close> computes with Python \<^verbatim>\<open>float\<close>s, that is IEEE 754 doubles. A double is
  \<^term>\<open>Finite q\<close> for the rational \<open>q\<close> it denotes (\<^term>\<open>Finite 0\<close> is \<open>+0.0\<close>), the negative
  zero, an infinity or a NaN. Arithmetic is the exact result rounded to the nearest double,
  ties to the even mantissa (53 bits, exponents from \<open>-1074\<close>, overflow to infinity).
\<close>

datatype pyfloat = Finite rat | NegZero | PosInf | NegInf | NaN

function bit_length :: "int \<Rightarrow> int" where
  "bit_length n = (if n \<le> 0 then 0 else 1 + bit_length (n div 2))"
  by pat_completeness auto
termination
  by (relation "measure nat") auto

declare bit_length.simps [simp del]

definition pow2 :: "int \<Rightarrow> rat" where
  "pow2 e = (if 0 \<le> e then 2 ^ nat e else 1 / 2 ^ nat (- e))"

text \<open>For \<open>a > 0\<close>, the exponent \<open>e\<close> with \<open>2 ^ e \<le> a < 2 ^ (e + 1)\<close>.\<close>

definition floor_log2 :: "rat \<Rightarrow> int" where
  "floor_log2 a =
     (let (n, d) = quotient_of a;
          e0 = bit_length n - bit_length d
      in if pow2 e0 \<le> a then e0 else e0 - 1)"

definition round_half_even :: "rat \<Rightarrow> int" where
  "round_half_even q =
     (let f = \<lfloor>q\<rfloor>; r = q - of_int f
      in if r < 1 / 2 then f else if 1 / 2 < r then f + 1 else if even f then f else f + 1)"

definition round_double :: "rat \<Rightarrow> pyfloat" where
  "round_double q =
     (if q = 0 then Finite 0
      else
        let a = \<bar>q\<bar>;
            e = floor_log2 a;
            p = max (e - 52) (- 1074);
            m = round_half_even (a / pow2 p)
        in if 1024 \<le> e \<or> (e = 1023 \<and> m = 2 ^ 53) then (if q < 0 then NegInf else PosInf)
           else if m = 0 then (if q < 0 then NegZero else Finite 0)
           else Finite ((if q < 0 then - 1 else 1) * of_int m * pow2 p))"

text \<open>\<^verbatim>\<open>a - b\<close> on floats.\<close>

fun fsub :: "pyfloat \<Rightarrow> pyfloat \<Rightarrow> pyfloat" where
  "fsub NaN b = NaN"
| "fsub a NaN = NaN"
| "fsub PosInf PosInf = NaN"
| "fsub NegInf NegInf = NaN"
| "fsub PosInf b = PosInf"
| "fsub NegInf b = NegInf"
| "fsub a PosInf = NegInf"
| "fsub a NegInf = PosInf"
| "fsub (Finite a) (Finite b) = round_double (a - b)"
| "fsub (Finite a) NegZero = Finite a"
| "fsub NegZero (Finite b) = (if b = 0 then NegZero else Finite (- b))"
| "fsub NegZero NegZero = Finite 0"

text \<open>\<^verbatim>\<open>a / 2\<close> on a float (the integer 2 is converted to \<open>2.0\<close>).\<close>

fun half :: "pyfloat \<Rightarrow> pyfloat" where
  "half NaN = NaN"
| "half PosInf = PosInf"
| "half NegInf = NegInf"
| "half NegZero = NegZero"
| "half (Finite a) = round_double (a / 2)"

text \<open>\<^verbatim>\<open>a > b\<close> and \<^verbatim>\<open>a == b\<close> on floats: false whenever a NaN is involved, the two zeros equal.\<close>

fun fgt :: "pyfloat \<Rightarrow> pyfloat \<Rightarrow> bool" where
  "fgt NaN b = False"
| "fgt a NaN = False"
| "fgt a PosInf = False"
| "fgt PosInf b = True"
| "fgt NegInf b = False"
| "fgt a NegInf = True"
| "fgt (Finite a) (Finite b) = (b < a)"
| "fgt (Finite a) NegZero = (0 < a)"
| "fgt NegZero (Finite b) = (b < 0)"
| "fgt NegZero NegZero = False"

fun feq :: "pyfloat \<Rightarrow> pyfloat \<Rightarrow> bool" where
  "feq NaN b = False"
| "feq a NaN = False"
| "feq (Finite a) NegZero = (a = 0)"
| "feq NegZero (Finite b) = (b = 0)"
| "feq a b = (a = b)"

text \<open>
  The builtin \<^verbatim>\<open>max(w, h)\<close> keeps its first argument unless the second is greater.
\<close>

definition py_max :: "pyfloat \<Rightarrow> pyfloat \<Rightarrow> pyfloat" where
  "py_max w h = (if fgt h w then h else w)"

subsection \<open>Exceptions and the Python runtime\<close>

datatype exn =
  ValueError | ParseError | FileNotFoundError | IsADirectoryError | PermissionError
  | CalledProcessError "string list" int

text \<open>
  What a path names is a document that \<^verbatim>\<open>ET.parse\<close> reads back as the tree that was
  written, some other file (a bitmap), or a directory. The file system maps paths to what
  they name. Every file can be read, written and removed: permissions are not part of the
  model. What the script prints is the list of its output lines.
\<close>

datatype file_content = Svg element | Bitmap | Directory

record world =
  fs :: "string \<rightharpoonup> file_content"
  stdout :: "string list"

text \<open>
  What running an external command does: it exits with a return code, or
  \<^verbatim>\<open>subprocess.run\<close> raises before a return code exists (the executable is absent, for
  instance).
\<close>

datatype run_outcome = Returned int | Raised exn

text \<open>
  The parts of the Python runtime and of the machine that the script calls and this
  development does not define; every function of the script takes them as a parameter.
  \<^item> \<open>py_float\<close>: the builtin \<^verbatim>\<open>float(s)\<close> on a string, \<^term>\<open>None\<close> when it raises
    \<^verbatim>\<open>ValueError\<close>;
  \<^item> \<open>py_format\<close>: the text an f-string gives a float;
  \<^item> \<open>py_str_exn\<close>: the text an f-string gives an exception;
  \<^item> \<open>magick\<close>: the external \<^verbatim>\<open>magick\<close> program, from the argument list and the file
    system to its outcome and the file system it leaves.
\<close>

record runtime =
  py_float :: "string \<Rightarrow> pyfloat option"
  py_format :: "pyfloat \<Rightarrow> string"
  py_str_exn :: "exn \<Rightarrow> string"
  magick :: "string list \<Rightarrow> (string \<rightharpoonup> file_content) \<Rightarrow> run_outcome \<times> (string \<rightharpoonup> file_content)"

definition print :: "string \<Rightarrow> world \<Rightarrow> world" where
  "print line w = w\<lparr>stdout := stdout w @ [line]\<rparr>"

subsection \<open>Squaring the canvas (\<^verbatim>\<open>make_square\<close>)\<close>

text \<open>
  \<^verbatim>\<open>str.split()\<close> without arguments: the maximal runs of characters that are not white
  space. A character is a code point below 256; those that \<^verbatim>\<open>str.isspace\<close> accepts are the
  ASCII controls 9 to 13 and 28 to 31, the space, and the code points 133 and 160.
\<close>

definition is_space :: "char \<Rightarrow> bool" where
  "is_space c = (of_char c \<in> {9, 10, 11, 12, 13, 28, 29, 30, 31, 32, 133, 160 :: nat})"

fun split_acc :: "string \<Rightarrow> string \<Rightarrow> string list" where
  "split_acc cur [] = (if cur = [] then [] else [cur])"
| "split_acc cur (c # cs) =
     (if is_space c then (if cur = [] then split_acc [] cs else cur # split_acc [] cs)
      else split_acc (cur @ [c]) cs)"

definition split :: "string \<Rightarrow> string list" where
  "split s = split_acc [] s"

text \<open>
  Lines 66 and 67: the \<^verbatim>\<open>viewBox\<close> attribute (or the default text) is split and converted;
  unpacking into four names raises \<^verbatim>\<open>ValueError\<close> unless there are exactly four items,
  and so does \<^verbatim>\<open>float\<close> on an item it cannot read.
\<close>

definition get_viewBox :: "runtime \<Rightarrow> element \<Rightarrow> exn + (pyfloat \<times> pyfloat \<times> pyfloat \<times> pyfloat)" where
  "get_viewBox rt root_el =
     (let vb = split (case map_of (attrib root_el) ''viewBox'' of
                        Some v \<Rightarrow> v | None \<Rightarrow> ''0 0 401.98 559.472'')
      in case map (py_float rt) vb of
           [Some x, Some y, Some w, Some h] \<Rightarrow> Inr (x, y, w, h)
         | _ \<Rightarrow> Inl ValueError)"

text \<open>Lines 69 to 71: \<^verbatim>\<open>target_dim\<close>, \<^verbatim>\<open>dx\<close> and \<^verbatim>\<open>dy\<close>.\<close>

definition target_dim :: "pyfloat \<Rightarrow> pyfloat \<Rightarrow> pyfloat" where
  "target_dim w h = py_max w h"

definition dx :: "pyfloat \<Rightarrow> pyfloat \<Rightarrow> pyfloat" where
  "dx w h = half (fsub (target_dim w h) w)"

definition dy :: "pyfloat \<Rightarrow> pyfloat \<Rightarrow> pyfloat" where
  "dy w h = half (fsub (target_dim w h) h)"

definition make_square :: "runtime \<Rightarrow> element \<Rightarrow> exn + element" where
  "make_square rt root_el =
     (case get_viewBox rt root_el of
        Inl e \<Rightarrow> Inl e
      | Inr (x, y, w, h) \<Rightarrow>
          let new_root = new_Element SVG_svg
                [(''viewBox'', ''0 0 '' @ py_format rt (target_dim w h) @ '' ''
                     @ py_format rt (target_dim w h)),
                 (''width'', py_format rt (target_dim w h)),
                 (''height'', py_format rt (target_dim w h)),
                 (''version'', ''1.1'')];
              content_group = new_Element SVG_g
                [(''transform'', ''translate('' @ py_format rt (dx w h) @ '', ''
                     @ py_format rt (dy w h) @ '')'')]
          in Inr (append_child new_root (fold (\<lambda>child g. append_child g child) (children root_el) content_group)))"

subsection \<open>Where the artwork lands\<close>

text \<open>
  What the claims on centring speak of, in the exact numbers that the floats denote. An
  SVG document shows the rectangle of user space that its \<^verbatim>\<open>viewBox\<close> names: for the source
  that is \<open>[x, x + w] \<times> [y, y + h]\<close>, with centre \<open>(x + w / 2, y + h / 2)\<close>. In the tree
  \<^verbatim>\<open>make_square\<close> returns, the children are drawn moved by the translation of the group,
  which is the \<open>dx\<close> and \<open>dy\<close> of the code, so that centre lands at \<open>artwork_centre\<close>; the new
  \<^verbatim>\<open>viewBox\<close> is \<open>[0, s] \<times> [0, s]\<close> for the \<open>target_dim\<close> \<open>s\<close> of the code, with centre
  \<open>canvas_centre\<close>. The artwork is centred when the two are the same point.
\<close>

fun value_of :: "pyfloat \<Rightarrow> rat option" where
  "value_of (Finite q) = Some q"
| "value_of NegZero = Some 0"
| "value_of PosInf = None"
| "value_of NegInf = None"
| "value_of NaN = None"

definition artwork_centre :: "pyfloat \<Rightarrow> pyfloat \<Rightarrow> pyfloat \<Rightarrow> pyfloat \<Rightarrow> (rat \<times> rat) option" where
  "artwork_centre x y w h =
     (case (value_of x, value_of y, value_of w, value_of h, value_of (dx w h), value_of (dy w h)) of
        (Some x0, Some y0, Some w0, Some h0, Some a, Some b) \<Rightarrow>
          Some (x0 + w0 / 2 + a, y0 + h0 / 2 + b)
      | _ \<Rightarrow> None)"

definition canvas_centre :: "pyfloat \<Rightarrow> pyfloat \<Rightarrow> (rat \<times> rat) option" where
  "canvas_centre w h =
     (case value_of (target_dim w h) of
        Some s \<Rightarrow> Some (s / 2, s / 2)
      | None \<Rightarrow> None)"

definition centred :: "pyfloat \<Rightarrow> pyfloat \<Rightarrow> pyfloat \<Rightarrow> pyfloat \<Rightarrow> bool" where
  "centred x y w h =
     (case artwork_centre x y w h of
        Some c \<Rightarrow> canvas_centre w h = Some c
      | None \<Rightarrow> False)"

subsection \<open>Elements of a tree, in place\<close>

text \<open>
  The script changes attributes of elements it reaches by iterating over a tree. An element
  of a tree is named by its path from the top, the list of child indices. \<open>get_at\<close> reads
  the element at a path, \<open>modify_at\<close> changes the attributes of the element at a path and
  nothing else, and \<open>iter_paths\<close> lists the elements in the order of \<^verbatim>\<open>Element.iter()\<close>:
  the element itself, then the elements of each child's subtree, in document order.
\<close>

type_synonym path = "nat list"

fun get_at :: "path \<Rightarrow> element \<Rightarrow> element option" where
  "get_at [] e = Some e"
| "get_at (i # p) e = (if i < length (children e) then get_at p (children e ! i) else None)"

fun modify_at :: "path \<Rightarrow> (attribs \<Rightarrow> attribs) \<Rightarrow> element \<Rightarrow> element" where
  "modify_at [] f (Element t a tx ta cs) = Element t (f a) tx ta cs"
| "modify_at (i # p) f (Element t a tx ta cs) =
     (if i < length cs then Element t a tx ta (cs[i := modify_at p f (cs ! i)])
      else Element t a tx ta cs)"

fun iter_paths :: "element \<Rightarrow> path list"
  and iter_from :: "nat \<Rightarrow> element list \<Rightarrow> path list" where
  "iter_paths (Element t a tx ta cs) = [] # iter_from 0 cs"
| "iter_from i [] = []"
| "iter_from i (c # cs) = map ((#) i) (iter_paths c) @ iter_from (Suc i) cs"

subsection \<open>The application icon (\<^verbatim>\<open>create_app_icon\<close>)\<close>

definition CANONICAL_PATH :: string where
  "CANONICAL_PATH = ''gopher_canonical.svg''"

definition APP_ICON_PATH :: string where
  "APP_ICON_PATH = ''app_icon.svg''"

text \<open>
  \<^verbatim>\<open>load_canonical\<close>: \<^verbatim>\<open>ET.parse\<close> raises when the path names nothing, a directory, or a
  file that is not a document.
\<close>

definition load_canonical :: "world \<Rightarrow> exn + element" where
  "load_canonical w =
     (case fs w CANONICAL_PATH of
        None \<Rightarrow> Inl FileNotFoundError
      | Some Directory \<Rightarrow> Inl IsADirectoryError
      | Some Bitmap \<Rightarrow> Inl ParseError
      | Some (Svg root_el) \<Rightarrow> Inr root_el)"

text \<open>
  \<^verbatim>\<open>ElementTree(root).write(filename, ...)\<close>: the file now holds the tree, whatever file it
  was before; opening a directory for writing raises.
\<close>

definition write_tree :: "string \<Rightarrow> element \<Rightarrow> world \<Rightarrow> exn + world" where
  "write_tree filename root_el w =
     (if fs w filename = Some Directory then Inl IsADirectoryError
      else Inr (w\<lparr>fs := (fs w)(filename \<mapsto> Svg root_el)\<rparr>))"

text \<open>\<^verbatim>\<open>str.upper()\<close> on ASCII text.\<close>

definition upper_char :: "char \<Rightarrow> char" where
  "upper_char c =
     (let n = of_char c :: nat in if 97 \<le> n \<and> n \<le> 122 then char_of (n - 32) else c)"

definition upper :: "string \<Rightarrow> string" where
  "upper s = map upper_char s"

text \<open>Lines 97 and 98, on the attributes of one element.\<close>

definition blue_to_go_blue :: "attribs \<Rightarrow> attribs" where
  "blue_to_go_blue a =
     (case map_of a ''fill'' of
        None \<Rightarrow> a
      | Some v \<Rightarrow> if upper v = ''#6AD7E5'' then AList.update ''fill'' ''#00ADD8'' a else a)"

text \<open>The loop at lines 96 to 98 over \<^verbatim>\<open>root.iter()\<close>.\<close>

definition update_blue :: "element \<Rightarrow> element" where
  "update_blue root_el = fold (\<lambda>p r. modify_at p blue_to_go_blue r) (iter_paths root_el) root_el"

text \<open>Lines 95 to 105: the tree that \<^verbatim>\<open>create_app_icon\<close> writes.\<close>

definition app_icon_root :: "runtime \<Rightarrow> element \<Rightarrow> exn + element" where
  "app_icon_root rt root_el =
     (let root_el1 = update_blue root_el;
          pads = create_pads ''#FFFFFF'';
          root_el2 = append_child root_el1 pads
      in make_square rt root_el2)"

definition create_app_icon :: "runtime \<Rightarrow> world \<Rightarrow> exn + world" where
  "create_app_icon rt w =
     (case load_canonical w of
        Inl e \<Rightarrow> Inl e
      | Inr root_el \<Rightarrow>
          (case app_icon_root rt root_el of
             Inl e \<Rightarrow> Inl e
           | Inr new_root \<Rightarrow>
               (case write_tree APP_ICON_PATH new_root w of
                  Inl e \<Rightarrow> Inl e
                | Inr w' \<Rightarrow> Inr (print (''Created '' @ APP_ICON_PATH) w'))))"

subsection \<open>The tray layers (\<^verbatim>\<open>create_tray_body\<close>, \<^verbatim>\<open>create_tray_layers\<close>)\<close>

text \<open>
  Lines 123 to 133 on the attributes of a top-level element, and the same statements at
  lines 138 to 148 on the attributes of an element below it: \<^verbatim>\<open>has_fill\<close> is set when
  \<^verbatim>\<open>fill\<close> is present and not \<^verbatim>\<open>none\<close>, or absent; then \<^verbatim>\<open>fill\<close> is set to the colour,
  and \<^verbatim>\<open>stroke\<close> is set to the colour when it is present.
\<close>

definition has_fill :: "attribs \<Rightarrow> bool" where
  "has_fill a =
     (if map_of a ''fill'' \<noteq> None \<and> map_of a ''fill'' \<noteq> Some ''none'' then True
      else if map_of a ''fill'' = None then True
      else False)"

definition recolor :: "string \<Rightarrow> attribs \<Rightarrow> attribs" where
  "recolor color a =
     (let a1 = (if has_fill a then AList.update ''fill'' color a else a)
      in if map_of a1 ''stroke'' \<noteq> None then AList.update ''stroke'' color a1 else a1)"

text \<open>
  The body of the loop at lines 122 to 150 for one element \<^verbatim>\<open>elem\<close> of \<^verbatim>\<open>old_children\<close>:
  its own attributes, then the loop over \<^verbatim>\<open>elem.iter()\<close>, which skips \<^verbatim>\<open>elem\<close> itself
  (the empty path) and recolours every other element it yields. Only attributes change, so
  the iteration runs over the elements the tree had at the start.
\<close>

definition silhouette :: "string \<Rightarrow> element \<Rightarrow> element" where
  "silhouette color elem =
     (let elem1 = modify_at [] (recolor color) elem
      in fold (\<lambda>sub e. if sub = [] then e else modify_at sub (recolor color) e)
           (iter_paths elem1) elem1)"

text \<open>
  \<^verbatim>\<open>root.remove(child)\<close> for every child (lines 116 and 117, 170 and 171) leaves the root
  without children; its tag, attributes and text stay.
\<close>

fun remove_children :: "element \<Rightarrow> element" where
  "remove_children (Element t a tx ta cs) = Element t a tx ta []"

text \<open>Lines 115 to 155: the tree that \<^verbatim>\<open>create_tray_body\<close> writes.\<close>

definition tray_body_root :: "runtime \<Rightarrow> string \<Rightarrow> element \<Rightarrow> exn + element" where
  "tray_body_root rt color root_el =
     (let old_children = children root_el;
          root_el1 = remove_children root_el;
          body_group = fold (\<lambda>elem g. append_child g (silhouette color elem)) old_children
                         (new_Element SVG_g []);
          root_el2 = append_child root_el1 body_group
      in make_square rt root_el2)"

definition create_tray_body :: "runtime \<Rightarrow> string \<Rightarrow> string \<Rightarrow> world \<Rightarrow> exn + world" where
  "create_tray_body rt filename color w =
     (case load_canonical w of
        Inl e \<Rightarrow> Inl e
      | Inr root_el \<Rightarrow>
          (case tray_body_root rt color root_el of
             Inl e \<Rightarrow> Inl e
           | Inr new_root \<Rightarrow>
               (case write_tree filename new_root w of
                  Inl e \<Rightarrow> Inl e
                | Inr w' \<Rightarrow> Inr (print (''Created '' @ filename) w'))))"

text \<open>Lines 169 to 181: the pads alone on the squared canvas.\<close>

definition tray_pads_root :: "runtime \<Rightarrow> element \<Rightarrow> exn + element" where
  "tray_pads_root rt root_pads =
     (let root_pads1 = remove_children root_pads;
          pads_g = create_pads ''black'';
          root_pads2 = append_child root_pads1 pads_g
      in make_square rt root_pads2)"

definition create_tray_pads :: "runtime \<Rightarrow> world \<Rightarrow> exn + world" where
  "create_tray_pads rt w =
     (case load_canonical w of
        Inl e \<Rightarrow> Inl e
      | Inr root_pads \<Rightarrow>
          (case tray_pads_root rt root_pads of
             Inl e \<Rightarrow> Inl e
           | Inr new_root_pads \<Rightarrow>
               (case write_tree ''tray_pads.svg'' new_root_pads w of
                  Inl e \<Rightarrow> Inl e
                | Inr w' \<Rightarrow> Inr (print ''Created tray_pads.svg'' w'))))"

text \<open>
  Statements that run one after the other: an exception raised by one of them ends the
  sequence, and the ones after it do not run.
\<close>

fun run_stages :: "(world \<Rightarrow> exn + world) list \<Rightarrow> world \<Rightarrow> exn + world" where
  "run_stages [] w = Inr w"
| "run_stages (stage # stages) w =
     (case stage w of Inl e \<Rightarrow> Inl e | Inr w' \<Rightarrow> run_stages stages w')"

definition create_tray_layers :: "runtime \<Rightarrow> world \<Rightarrow> exn + world" where
  "create_tray_layers rt =
     run_stages
       [create_tray_body rt ''tray_body.svg'' ''white'',
        create_tray_body rt ''tray_body_black.svg'' ''black'',
        create_tray_pads rt]"

subsection \<open>Rendering, compositing and cleaning up\<close>

text \<open>
  \<^verbatim>\<open>subprocess.run(cmd, check=True)\<close>: the program runs on the file system; a nonzero return
  code is raised as \<^verbatim>\<open>CalledProcessError\<close>.
\<close>

definition subprocess_run :: "runtime \<Rightarrow> string list \<Rightarrow> world \<Rightarrow> (exn + unit) \<times> world" where
  "subprocess_run rt cmd w =
     (case magick rt cmd (fs w) of
        (Raised e, fs') \<Rightarrow> (Inl e, w\<lparr>fs := fs'\<rparr>)
      | (Returned rc, fs') \<Rightarrow>
          (if rc \<noteq> 0 then (Inl (CalledProcessError cmd rc), w\<lparr>fs := fs'\<rparr>)
           else (Inr (), w\<lparr>fs := fs'\<rparr>)))"

text \<open>
  \<^verbatim>\<open>render_svg\<close> and \<^verbatim>\<open>composite_tray_icon\<close>, each with the argument list it passes
  to \<^verbatim>\<open>subprocess.run\<close>: the \<^verbatim>\<open>except\<close> clause handles \<^verbatim>\<open>CalledProcessError\<close> and no
  other exception.
\<close>

definition render_cmd :: "string \<Rightarrow> string \<Rightarrow> string list" where
  "render_cmd svg_path png_path = [''magick'', ''-background'', ''none'', svg_path, png_path]"

definition composite_cmd :: "string \<Rightarrow> string \<Rightarrow> string \<Rightarrow> string list" where
  "composite_cmd body_png pads_png output_png =
     [''magick'', body_png, pads_png, ''-compose'', ''DstOut'', ''-composite'', output_png]"

definition render_svg :: "runtime \<Rightarrow> string \<Rightarrow> string \<Rightarrow> world \<Rightarrow> exn + world" where
  "render_svg rt svg_path png_path w =
     (case subprocess_run rt (render_cmd svg_path png_path) w of
        (Inr u, w') \<Rightarrow> Inr (print (''Rendered '' @ png_path) w')
      | (Inl (CalledProcessError cmd rc), w') \<Rightarrow>
          Inr (print (''Error rendering '' @ svg_path @ '': ''
                 @ py_str_exn rt (CalledProcessError cmd rc)) w')
      | (Inl e, w') \<Rightarrow> Inl e)"

definition composite_tray_icon :: "runtime \<Rightarrow> string \<Rightarrow> string \<Rightarrow> string \<Rightarrow> world \<Rightarrow> exn + world" where
  "composite_tray_icon rt body_png pads_png output_png w =
     (case subprocess_run rt (composite_cmd body_png pads_png output_png) w of
        (Inr u, w') \<Rightarrow> Inr (print (''Composited '' @ output_png) w')
      | (Inl (CalledProcessError cmd rc), w') \<Rightarrow>
          Inr (print (''Error compositing '' @ output_png @ '': ''
                 @ py_str_exn rt (CalledProcessError cmd rc)) w')
      | (Inl e, w') \<Rightarrow> Inl e)"

text \<open>
  \<^verbatim>\<open>os.path.exists\<close> holds of every path that names something, a directory too;
  \<^verbatim>\<open>os.remove\<close> removes a file and raises on a path that names nothing or a directory.
\<close>

definition os_path_exists :: "string \<Rightarrow> world \<Rightarrow> bool" where
  "os_path_exists f w = (fs w f \<noteq> None)"

definition os_remove :: "string \<Rightarrow> world \<Rightarrow> exn + world" where
  "os_remove f w =
     (case fs w f of
        None \<Rightarrow> Inl FileNotFoundError
      | Some Directory \<Rightarrow> Inl IsADirectoryError
      | Some content \<Rightarrow> Inr (w\<lparr>fs := (fs w)(f := None)\<rparr>))"

fun cleanup_temp_files :: "string list \<Rightarrow> world \<Rightarrow> exn + world" where
  "cleanup_temp_files [] w = Inr w"
| "cleanup_temp_files (f # files) w =
     (if os_path_exists f w then
        (case os_remove f w of
           Inl e \<Rightarrow> Inl e
         | Inr w' \<Rightarrow> cleanup_temp_files files (print (''Removed temp file '' @ f) w'))
      else cleanup_temp_files files w)"

subsection \<open>The script (lines 217 to 246)\<close>

definition main :: "runtime \<Rightarrow> world \<Rightarrow> exn + world" where
  "main rt =
     run_stages
       [create_app_icon rt,
        create_tray_layers rt,
        render_svg rt ''app_icon.svg'' ''../../assets/app_icon.png'',
        render_svg rt ''tray_body.svg'' ''tray_body.png'',
        render_svg rt ''tray_body_black.svg'' ''tray_body_black.png'',
        render_svg rt ''tray_pads.svg'' ''tray_pads.png'',
        composite_tray_icon rt ''tray_body.png'' ''tray_pads.png'' ''../../assets/tray_icon.png'',
        composite_tray_icon rt ''tray_body_black.png'' ''tray_pads.png''
          ''../../assets/tray_icon_black.png'',
        cleanup_temp_files
          [''app_icon.svg'',
           ''tray_body.svg'', ''tray_body.png'',
           ''tray_body_black.svg'', ''tray_body_black.png'',
           ''tray_pads.svg'', ''tray_pads.png''],
        (\<lambda>w. Inr (print ''Icon generation complete.'' w))]"

subsection \<open>What an external call leaves on the output\<close>

text \<open>
  The line that \<^verbatim>\<open>render_svg\<close> and \<^verbatim>\<open>composite_tray_icon\<close> print when the program
  returns the code \<open>rc\<close>: the confirmation for 0, the error with the path otherwise.
\<close>

definition render_report :: "runtime \<Rightarrow> string \<Rightarrow> string \<Rightarrow> int \<Rightarrow> string" where
  "render_report rt svg_path png_path rc =
     (if rc = 0 then ''Rendered '' @ png_path
      else ''Error rendering '' @ svg_path @ '': ''
             @ py_str_exn rt (CalledProcessError (render_cmd svg_path png_path) rc))"

definition composite_report :: "runtime \<Rightarrow> string \<Rightarrow> string \<Rightarrow> string \<Rightarrow> int \<Rightarrow> string" where
  "composite_report rt body_png pads_png output_png rc =
     (if rc = 0 then ''Composited '' @ output_png
      else ''Error compositing '' @ output_png @ '': ''
             @ py_str_exn rt (CalledProcessError (composite_cmd body_png pads_png output_png) rc))"

subsection \<open>Every element of a tree\<close>

text \<open>
  The tree in which the attributes of every element have been changed by \<open>f\<close>: what a loop
  over \<^verbatim>\<open>iter()\<close> that changes each element once arrives at. The loops of the script are
  compared with it below.
\<close>

fun map_attrib :: "(attribs \<Rightarrow> attribs) \<Rightarrow> element \<Rightarrow> element" where
  "map_attrib f (Element t a tx ta cs) = Element t (f a) tx ta (map (map_attrib f) cs)"

subsection \<open>Sample inputs\<close>

text \<open>
  Concrete inputs for the examples below. \<open>float_sample\<close> gives the value of the builtin
  \<^verbatim>\<open>float\<close> on the four strings it lists (\<^verbatim>\<open>float("400")\<close> is \<open>400.0\<close>,
  \<^verbatim>\<open>float("inf")\<close> is the infinity); the examples convert no other string. The other
  parts of the runtime stay arbitrary in the examples.
\<close>

definition float_sample :: "string \<Rightarrow> pyfloat option" where
  "float_sample s =
     (if s = ''0'' then Some (Finite 0)
      else if s = ''400'' then Some (Finite 400)
      else if s = ''600'' then Some (Finite 600)
      else if s = ''inf'' then Some PosInf
      else None)"

definition rt_sample :: "(pyfloat \<Rightarrow> string) \<Rightarrow> (exn \<Rightarrow> string) \<Rightarrow>
    (string list \<Rightarrow> (string \<rightharpoonup> file_content) \<Rightarrow> run_outcome \<times> (string \<rightharpoonup> file_content)) \<Rightarrow> runtime" where
  "rt_sample fmt se mg = \<lparr>py_float = float_sample, py_format = fmt, py_str_exn = se, magick = mg\<rparr>"

definition doc_sample :: element where
  "doc_sample =
     Element ''{http://www.w3.org/2000/svg}svg'' [(''viewBox'', ''0 0 400 600'')] None None
       [Element ''{http://www.w3.org/2000/svg}path'' [(''d'', ''M0 0h10v10z'')] None None [],
        Element ''{http://www.w3.org/2000/svg}g'' [(''fill'', ''none''), (''stroke'', ''#000000'')]
          None None
          [Element ''{http://www.w3.org/2000/svg}circle'' [(''fill'', ''#6ad7E5''), (''r'', ''5'')]
             None None [],
           Element ''{http://www.w3.org/2000/svg}circle'' [(''fill'', ''#FFFFFF'')] None None []]]"

definition doc_shifted_sample :: element where
  "doc_shifted_sample =
     Element ''{http://www.w3.org/2000/svg}svg'' [(''viewBox'', ''400 600 400 600'')] None None
       (children doc_sample)"

definition doc_square_sample :: element where
  "doc_square_sample =
     Element ''{http://www.w3.org/2000/svg}svg'' [(''viewBox'', ''0 0 600 600'')] None None
       (children doc_sample)"

text \<open>
  Two behaviours of the external program: it fails with exit status 1 and leaves the files
  alone, or it cannot be started. And a first state of the world: the canonical source is
  the sample document, nothing else exists and nothing has been printed.
\<close>

definition magick_fails :: "string list \<Rightarrow> (string \<rightharpoonup> file_content) \<Rightarrow> run_outcome \<times> (string \<rightharpoonup> file_content)" where
  "magick_fails cmd files = (Returned 1, files)"

definition magick_absent :: "string list \<Rightarrow> (string \<rightharpoonup> file_content) \<Rightarrow> run_outcome \<times> (string \<rightharpoonup> file_content)" where
  "magick_absent cmd files = (Raised FileNotFoundError, files)"

definition world_sample :: world where
  "world_sample = \<lparr>fs = [CANONICAL_PATH \<mapsto> Svg doc_sample], stdout = []\<rparr>"

section \<open>Properties\<close>

lemma str_int_109: "str_int 109 = ''109''"
  by code_simp

lemma str_int_208: "str_int 208 = ''208''"
  by code_simp

lemma str_int_260: "str_int 260 = ''260''"
  by code_simp

lemma str_int_359: "str_int 359 = ''359''"
  by code_simp

lemma str_int_85: "str_int 85 = ''85''"
  by code_simp

lemma pads_coords_eq: "pads_coords = [(109, 260), (208, 260), (109, 359), (208, 359)]"
  by (simp add: pads_coords_def start_x_def start_y_def size_pad_def gap_def)

text \<open>
  Claim C3. For every fill colour, \<^verbatim>\<open>create_pads\<close> returns the group \<^verbatim>\<open>midi-pads\<close> holding
  exactly four \<^verbatim>\<open>rect\<close> elements, at (109,260), (208,260), (109,359) and (208,359) in this
  order, each 85 by 85 with \<^verbatim>\<open>rx = ry = 10\<close> and the given fill. The result is this one
  value, a function of the colour alone, so two calls with the same colour agree.
\<close>

theorem create_pads_value:
  "create_pads color =
     Element ''{http://www.w3.org/2000/svg}g'' [(''id'', ''midi-pads'')] None None
       [Element ''{http://www.w3.org/2000/svg}rect''
          [(''x'', ''109''), (''y'', ''260''), (''width'', ''85''), (''height'', ''85''),
           (''rx'', ''10''), (''ry'', ''10''), (''fill'', color)] None None [],
        Element ''{http://www.w3.org/2000/svg}rect''
          [(''x'', ''208''), (''y'', ''260''), (''width'', ''85''), (''height'', ''85''),
           (''rx'', ''10''), (''ry'', ''10''), (''fill'', color)] None None [],
        Element ''{http://www.w3.org/2000/svg}rect''
          [(''x'', ''109''), (''y'', ''359''), (''width'', ''85''), (''height'', ''85''),
           (''rx'', ''10''), (''ry'', ''10''), (''fill'', color)] None None [],
        Element ''{http://www.w3.org/2000/svg}rect''
          [(''x'', ''208''), (''y'', ''359''), (''width'', ''85''), (''height'', ''85''),
           (''rx'', ''10''), (''ry'', ''10''), (''fill'', color)] None None []]"
  by (simp add: create_pads_def pads_coords_eq pad_rect_def new_Element_def SVG_g_def
      SVG_rect_def size_pad_def str_int_109 str_int_208 str_int_260 str_int_359 str_int_85)

subsection \<open>Loops over a tree\<close>

lemma fold_modify_child:
  "i < length cs \<Longrightarrow>
   fold (\<lambda>p. modify_at p f) (map ((#) i) qs) (Element t a tx ta cs) =
   Element t a tx ta (cs[i := fold (\<lambda>q. modify_at q f) qs (cs ! i)])"
proof (induction qs arbitrary: cs)
  case Nil
  then show ?case by simp
next
  case (Cons q qs)
  from Cons.prems have len: "i < length (cs[i := modify_at q f (cs ! i)])" by simp
  show ?case
    using Cons.prems by (simp add: Cons.IH [OF len])
qed

lemma fold_iter_from:
  "(\<And>c. c \<in> set cs \<Longrightarrow> fold (\<lambda>p. modify_at p f) (iter_paths c) c = map_attrib f c) \<Longrightarrow>
   fold (\<lambda>p. modify_at p f) (iter_from (length pre) cs) (Element t a tx ta (pre @ cs)) =
   Element t a tx ta (pre @ map (map_attrib f) cs)"
proof (induction cs arbitrary: pre)
  case Nil
  then show ?case by simp
next
  case (Cons c cs)
  have c: "fold (\<lambda>p. modify_at p f) (iter_paths c) c = map_attrib f c"
    using Cons.prems by simp
  have rest: "\<And>d. d \<in> set cs \<Longrightarrow> fold (\<lambda>p. modify_at p f) (iter_paths d) d = map_attrib f d"
    using Cons.prems by simp
  have step: "fold (\<lambda>p. modify_at p f) (map ((#) (length pre)) (iter_paths c))
                (Element t a tx ta (pre @ c # cs)) =
              Element t a tx ta ((pre @ [map_attrib f c]) @ cs)"
    by (simp add: fold_modify_child c)
  have "fold (\<lambda>p. modify_at p f) (iter_from (length (pre @ [map_attrib f c])) cs)
          (Element t a tx ta ((pre @ [map_attrib f c]) @ cs)) =
        Element t a tx ta ((pre @ [map_attrib f c]) @ map (map_attrib f) cs)"
    by (rule Cons.IH [OF rest])
  with step show ?case by simp
qed

lemma fold_iter_paths: "fold (\<lambda>p. modify_at p f) (iter_paths e) e = map_attrib f e"
proof (induction e)
  case (Element t a tx ta cs)
  have "fold (\<lambda>p. modify_at p f) (iter_from (length ([]::element list)) cs)
          (Element t (f a) tx ta ([] @ cs)) =
        Element t (f a) tx ta ([] @ map (map_attrib f) cs)"
    by (rule fold_iter_from) (rule Element.IH)
  then show ?case by simp
qed

lemma iter_from_nonempty: "[] \<notin> set (iter_from i cs)"
  by (induction cs arbitrary: i) auto

lemma fold_skip_top:
  "[] \<notin> set ps \<Longrightarrow>
   fold (\<lambda>sub e. if sub = [] then e else modify_at sub f e) ps e = fold (\<lambda>p. modify_at p f) ps e"
  by (induction ps arbitrary: e) auto

lemma silhouette_eq: "silhouette color elem = map_attrib (recolor color) elem"
proof (cases elem)
  case (Element t a tx ta cs)
  have "fold (\<lambda>p. modify_at p (recolor color)) (iter_from (length ([]::element list)) cs)
          (Element t (recolor color a) tx ta ([] @ cs)) =
        Element t (recolor color a) tx ta ([] @ map (map_attrib (recolor color)) cs)"
    by (rule fold_iter_from) (rule fold_iter_paths)
  then show ?thesis
    by (simp add: silhouette_def Element fold_skip_top iter_from_nonempty)
qed

lemma update_blue_eq: "update_blue root_el = map_attrib blue_to_go_blue root_el"
  by (simp add: update_blue_def fold_iter_paths)

lemma get_at_map_attrib:
  "get_at p (map_attrib f e) = map_option (map_attrib f) (get_at p e)"
proof (induction p arbitrary: e)
  case Nil
  then show ?case by simp
next
  case (Cons i p)
  show ?case by (cases e) (simp add: Cons.IH)
qed

subsection \<open>Squaring\<close>

lemma split_sample: "split ''0 0 400 600'' = [''0'', ''0'', ''400'', ''600'']"
  by (simp add: split_def is_space_def)

lemma get_viewBox_sample:
  "get_viewBox (rt_sample fmt se mg) doc_sample = Inr (Finite 0, Finite 0, Finite 400, Finite 600)"
  by (simp add: get_viewBox_def doc_sample_def split_sample rt_sample_def float_sample_def)

lemma fold_append_child:
  "fold (\<lambda>child g. append_child g child) cs (Element t a tx ta pre) = Element t a tx ta (pre @ cs)"
  by (induction cs arbitrary: pre) simp_all

lemma make_square_value:
  "get_viewBox rt root_el = Inr (x, y, w, h) \<Longrightarrow>
   make_square rt root_el =
     Inr (Element SVG_svg
            [(''viewBox'', ''0 0 '' @ py_format rt (target_dim w h) @ '' '' @ py_format rt (target_dim w h)),
             (''width'', py_format rt (target_dim w h)),
             (''height'', py_format rt (target_dim w h)),
             (''version'', ''1.1'')] None None
            [Element SVG_g
               [(''transform'', ''translate('' @ py_format rt (dx w h) @ '', '' @ py_format rt (dy w h) @ '')'')]
               None None (children root_el)])"
  by (simp add: make_square_def new_Element_def fold_append_child)

lemma round_double_0: "round_double 0 = Finite 0"
  by (simp add: round_double_def)

lemma round_double_200: "round_double 200 = Finite 200"
  by code_simp

lemma round_double_100: "round_double 100 = Finite 100"
  by code_simp

lemma fsub_self: "fsub (Finite a) (Finite a) = Finite 0"
  by (simp add: round_double_0)

lemma py_max_Finite: "py_max (Finite a) (Finite b) = Finite (max a b)"
  by (simp add: py_max_def max_def)

lemma geometry_400_600:
  "target_dim (Finite 400) (Finite 600) = Finite 600 \<and>
   dx (Finite 400) (Finite 600) = Finite 100 \<and>
   dy (Finite 400) (Finite 600) = Finite 0"
  by (simp add: target_dim_def dx_def dy_def py_max_Finite round_double_0 round_double_200 round_double_100)

lemma geometry_600_400:
  "target_dim (Finite 600) (Finite 400) = Finite 600 \<and>
   dx (Finite 600) (Finite 400) = Finite 0 \<and>
   dy (Finite 600) (Finite 400) = Finite 100"
  by (simp add: target_dim_def dx_def dy_def py_max_Finite round_double_0 round_double_200 round_double_100)

subsection \<open>The silhouette\<close>

lemma get_viewBox_attrib: "attrib r1 = attrib r2 \<Longrightarrow> get_viewBox rt r1 = get_viewBox rt r2"
  by (simp add: get_viewBox_def)

lemma attrib_append_child [simp]: "attrib (append_child e c) = attrib e"
  by (cases e) simp

lemma children_append_child [simp]: "children (append_child e c) = children e @ [c]"
  by (cases e) simp

lemma attrib_remove_children [simp]: "attrib (remove_children e) = attrib e"
  by (cases e) simp

lemma children_remove_children [simp]: "children (remove_children e) = []"
  by (cases e) simp

lemma attrib_map_attrib [simp]: "attrib (map_attrib f e) = f (attrib e)"
  by (cases e) simp

lemma tag_map_attrib [simp]: "tag (map_attrib f e) = tag e"
  by (cases e) simp

lemma children_map_attrib [simp]: "children (map_attrib f e) = map (map_attrib f) (children e)"
  by (cases e) simp

lemma body_group_eq:
  "fold (\<lambda>elem g. append_child g (F elem)) cs (Element t a tx ta pre) =
   Element t a tx ta (pre @ map F cs)"
  by (induction cs arbitrary: pre) simp_all

lemma tray_body_root_value:
  assumes "get_viewBox rt root_el = Inr (x, y, w, h)"
  shows "tray_body_root rt color root_el =
     Inr (Element SVG_svg
            [(''viewBox'', ''0 0 '' @ py_format rt (target_dim w h) @ '' '' @ py_format rt (target_dim w h)),
             (''width'', py_format rt (target_dim w h)),
             (''height'', py_format rt (target_dim w h)),
             (''version'', ''1.1'')] None None
            [Element SVG_g
               [(''transform'', ''translate('' @ py_format rt (dx w h) @ '', '' @ py_format rt (dy w h) @ '')'')]
               None None
               [Element SVG_g [] None None (map (map_attrib (recolor color)) (children root_el))]])"
proof -
  let ?r2 = "append_child (remove_children root_el)
      (Element SVG_g [] None None ([] @ map (silhouette color) (children root_el)))"
  have vb: "get_viewBox rt ?r2 = Inr (x, y, w, h)"
    using assms get_viewBox_attrib [of ?r2 root_el rt] by simp
  have sil: "silhouette color = map_attrib (recolor color)"
    by (rule ext) (rule silhouette_eq)
  show ?thesis
    using make_square_value [OF vb]
    by (simp add: tray_body_root_def new_Element_def body_group_eq sil)
qed

lemma get_viewBox_ValueError: "get_viewBox rt root_el = Inl e \<Longrightarrow> e = ValueError"
  by (auto simp: get_viewBox_def Let_def split: list.splits option.splits)

lemma recolor_fill:
  "map_of (recolor color a) ''fill'' =
     (if map_of a ''fill'' = Some ''none'' then Some ''none'' else Some color)"
  by (auto simp: recolor_def has_fill_def Let_def update_conv')

lemma recolor_stroke:
  "map_of (recolor color a) ''stroke'' =
     (if map_of a ''stroke'' = None then None else Some color)"
  by (auto simp: recolor_def has_fill_def Let_def update_conv')

lemma recolor_other:
  "k \<noteq> ''fill'' \<Longrightarrow> k \<noteq> ''stroke'' \<Longrightarrow> map_of (recolor color a) k = map_of a k"
  by (auto simp: recolor_def has_fill_def Let_def update_conv')

text \<open>
  Claim C1. In the tree that \<^verbatim>\<open>create_tray_body\<close> writes, the element that was at any place
  \<open>p\<close> below (or at) the \<open>i\<close>-th top-level child of the root is found under the two new
  groups, with the same tag and as many children, and its attributes are those of the
  original changed by \<open>recolor\<close> of its own attributes alone: \<^verbatim>\<open>fill\<close> is the colour unless
  it was \<^verbatim>\<open>none\<close>, in which case it stays \<^verbatim>\<open>none\<close>; \<^verbatim>\<open>stroke\<close> is the colour whenever
  it was present, and stays absent otherwise.
\<close>

theorem silhouette_recolor:
  assumes "tray_body_root rt color root_el = Inr new_root"
    and "i < length (children root_el)"
    and "get_at p (children root_el ! i) = Some e"
  shows "\<exists>e'. get_at (0 # 0 # i # p) new_root = Some e' \<and>
           tag e' = tag e \<and> length (children e') = length (children e) \<and>
           attrib e' = recolor color (attrib e) \<and>
           (map_of (attrib e) ''fill'' \<noteq> Some ''none'' \<longrightarrow> map_of (attrib e') ''fill'' = Some color) \<and>
           (map_of (attrib e) ''fill'' = Some ''none'' \<longrightarrow> map_of (attrib e') ''fill'' = Some ''none'') \<and>
           (map_of (attrib e) ''stroke'' \<noteq> None \<longrightarrow> map_of (attrib e') ''stroke'' = Some color) \<and>
           (map_of (attrib e) ''stroke'' = None \<longrightarrow> map_of (attrib e') ''stroke'' = None)"
proof -
  obtain x y w h where vb: "get_viewBox rt root_el = Inr (x, y, w, h)"
    using assms(1)
    by (cases "get_viewBox rt root_el")
      (auto simp: tray_body_root_def make_square_def get_viewBox_attrib [of "append_child (remove_children root_el) g" root_el for g])
  have at: "get_at (0 # 0 # i # p) new_root = Some (map_attrib (recolor color) e)"
    using assms tray_body_root_value [OF vb, of color]
    by (auto simp: get_at_map_attrib)
  show ?thesis
  proof (intro exI conjI)
    show "get_at (0 # 0 # i # p) new_root = Some (map_attrib (recolor color) e)"
      by (rule at)
  qed (simp_all add: recolor_fill recolor_stroke)
qed

subsection \<open>The blue of the application icon\<close>

lemma of_char_upper_char:
  "of_char (upper_char c) =
     (if 97 \<le> (of_char c :: nat) \<and> (of_char c :: nat) \<le> 122 then of_char c - 32 else (of_char c :: nat))"
  by (auto simp: upper_char_def Let_def)

lemma upper_char_letter:
  assumes "(of_char U :: nat) = of_char L - 32" "97 \<le> (of_char L :: nat)" "(of_char L :: nat) \<le> 122"
  shows "upper_char c = U \<longleftrightarrow> c = U \<or> c = L"
proof -
  have "upper_char c = U \<longleftrightarrow> (of_char (upper_char c) :: nat) = of_char U"
    by (simp only: of_char_eq_iff)
  also have "\<dots> \<longleftrightarrow> (of_char c :: nat) = of_char U \<or> (of_char c :: nat) = of_char L"
    using assms unfolding of_char_upper_char by (simp del: of_char_eq_iff) linarith
  also have "\<dots> \<longleftrightarrow> c = U \<or> c = L"
    by (simp only: of_char_eq_iff)
  finally show ?thesis .
qed

lemma upper_char_other:
  assumes "(of_char U :: nat) < 65"
  shows "upper_char c = U \<longleftrightarrow> c = U"
proof -
  have "upper_char c = U \<longleftrightarrow> (of_char (upper_char c) :: nat) = of_char U"
    by (simp only: of_char_eq_iff)
  also have "\<dots> \<longleftrightarrow> (of_char c :: nat) = of_char U"
    using assms unfolding of_char_upper_char by (simp del: of_char_eq_iff) linarith
  also have "\<dots> \<longleftrightarrow> c = U"
    by (simp only: of_char_eq_iff)
  finally show ?thesis .
qed

lemma upper_char_A: "upper_char c = CHR ''A'' \<longleftrightarrow> c = CHR ''A'' \<or> c = CHR ''a''"
  by (rule upper_char_letter) simp_all

lemma upper_char_D: "upper_char c = CHR ''D'' \<longleftrightarrow> c = CHR ''D'' \<or> c = CHR ''d''"
  by (rule upper_char_letter) simp_all

lemma upper_char_E: "upper_char c = CHR ''E'' \<longleftrightarrow> c = CHR ''E'' \<or> c = CHR ''e''"
  by (rule upper_char_letter) simp_all

lemma upper_char_hash: "upper_char c = CHR ''#'' \<longleftrightarrow> c = CHR ''#''"
  by (rule upper_char_other) simp

lemma upper_char_5: "upper_char c = CHR ''5'' \<longleftrightarrow> c = CHR ''5''"
  by (rule upper_char_other) simp

lemma upper_char_6: "upper_char c = CHR ''6'' \<longleftrightarrow> c = CHR ''6''"
  by (rule upper_char_other) simp

lemma upper_char_7: "upper_char c = CHR ''7'' \<longleftrightarrow> c = CHR ''7''"
  by (rule upper_char_other) simp

lemma upper_blue:
  "upper v = ''#6AD7E5'' \<longleftrightarrow>
     (\<exists>a d x. v = [CHR ''#'', CHR ''6'', a, d, CHR ''7'', x, CHR ''5''] \<and>
        (a = CHR ''A'' \<or> a = CHR ''a'') \<and> (d = CHR ''D'' \<or> d = CHR ''d'') \<and>
        (x = CHR ''E'' \<or> x = CHR ''e''))"
proof
  assume "upper v = ''#6AD7E5''"
  then obtain c0 c1 c2 c3 c4 c5 c6 where v: "v = [c0, c1, c2, c3, c4, c5, c6]"
    and u: "upper_char c0 = CHR ''#''" "upper_char c1 = CHR ''6''" "upper_char c2 = CHR ''A''"
      "upper_char c3 = CHR ''D''" "upper_char c4 = CHR ''7''" "upper_char c5 = CHR ''E''"
      "upper_char c6 = CHR ''5''"
    unfolding upper_def map_eq_Cons_conv by blast
  from u have "c0 = CHR ''#''" "c1 = CHR ''6''" "c4 = CHR ''7''" "c6 = CHR ''5''"
    "c2 = CHR ''A'' \<or> c2 = CHR ''a''" "c3 = CHR ''D'' \<or> c3 = CHR ''d''"
    "c5 = CHR ''E'' \<or> c5 = CHR ''e''"
    by (simp_all only: upper_char_A upper_char_D upper_char_E upper_char_hash upper_char_5
        upper_char_6 upper_char_7)
  with v show "\<exists>a d x. v = [CHR ''#'', CHR ''6'', a, d, CHR ''7'', x, CHR ''5''] \<and>
        (a = CHR ''A'' \<or> a = CHR ''a'') \<and> (d = CHR ''D'' \<or> d = CHR ''d'') \<and>
        (x = CHR ''E'' \<or> x = CHR ''e'')"
    by blast
next
  assume "\<exists>a d x. v = [CHR ''#'', CHR ''6'', a, d, CHR ''7'', x, CHR ''5''] \<and>
        (a = CHR ''A'' \<or> a = CHR ''a'') \<and> (d = CHR ''D'' \<or> d = CHR ''d'') \<and>
        (x = CHR ''E'' \<or> x = CHR ''e'')"
  then obtain a d x where v: "v = [CHR ''#'', CHR ''6'', a, d, CHR ''7'', x, CHR ''5'']"
    and "upper_char a = CHR ''A''" "upper_char d = CHR ''D''" "upper_char x = CHR ''E''"
    unfolding upper_char_A upper_char_D upper_char_E by blast
  moreover have "upper_char CHR ''#'' = CHR ''#''" "upper_char CHR ''6'' = CHR ''6''"
    "upper_char CHR ''7'' = CHR ''7''" "upper_char CHR ''5'' = CHR ''5''"
    by (simp_all only: upper_char_hash upper_char_5 upper_char_6 upper_char_7)
  ultimately show "upper v = ''#6AD7E5''"
    by (simp add: upper_def)
qed

lemma blue_fill:
  "map_of (blue_to_go_blue a) ''fill'' =
     (case map_of a ''fill'' of None \<Rightarrow> None
      | Some v \<Rightarrow> Some (if upper v = ''#6AD7E5'' then ''#00ADD8'' else v))"
  by (simp add: blue_to_go_blue_def update_conv' split: option.splits)

lemma blue_other: "k \<noteq> ''fill'' \<Longrightarrow> map_of (blue_to_go_blue a) k = map_of a k"
  by (simp add: blue_to_go_blue_def update_conv' split: option.splits)

lemma blue_keys: "map fst (blue_to_go_blue a) = map fst a"
  by (auto simp: blue_to_go_blue_def update_keys map_of_eq_None_iff split: option.splits
      dest: map_of_SomeD intro: rev_image_eqI)

lemma blue_unchanged:
  "map_of a ''fill'' = None \<or> (\<exists>v. map_of a ''fill'' = Some v \<and> upper v \<noteq> ''#6AD7E5'')
   \<Longrightarrow> blue_to_go_blue a = a"
  by (auto simp: blue_to_go_blue_def)

lemma elem_text_map_attrib [simp]: "elem_text (map_attrib f e) = elem_text e"
  by (cases e) simp

lemma elem_tail_map_attrib [simp]: "elem_tail (map_attrib f e) = elem_tail e"
  by (cases e) simp

lemma app_icon_root_value:
  assumes "get_viewBox rt root_el = Inr (x, y, w, h)"
  shows "app_icon_root rt root_el =
     Inr (Element SVG_svg
            [(''viewBox'', ''0 0 '' @ py_format rt (target_dim w h) @ '' '' @ py_format rt (target_dim w h)),
             (''width'', py_format rt (target_dim w h)),
             (''height'', py_format rt (target_dim w h)),
             (''version'', ''1.1'')] None None
            [Element SVG_g
               [(''transform'', ''translate('' @ py_format rt (dx w h) @ '', '' @ py_format rt (dy w h) @ '')'')]
               None None
               (map (map_attrib blue_to_go_blue) (children root_el) @ [create_pads ''#FFFFFF''])])"
proof -
  let ?r2 = "append_child (map_attrib blue_to_go_blue root_el) (create_pads ''#FFFFFF'')"
  have "map_of (attrib ?r2) ''viewBox'' = map_of (attrib root_el) ''viewBox''"
    by (simp add: blue_other)
  then have "get_viewBox rt ?r2 = get_viewBox rt root_el"
    by (simp add: get_viewBox_def)
  with assms have vb: "get_viewBox rt ?r2 = Inr (x, y, w, h)"
    by simp
  show ?thesis
    using make_square_value [OF vb]
    by (simp add: app_icon_root_def update_blue_eq)
qed

subsection \<open>Examples and claims on squaring\<close>

lemma split_shifted: "split ''400 600 400 600'' = [''400'', ''600'', ''400'', ''600'']"
  by (simp add: split_def is_space_def)

lemma split_square: "split ''0 0 600 600'' = [''0'', ''0'', ''600'', ''600'']"
  by (simp add: split_def is_space_def)

lemma get_viewBox_shifted:
  "get_viewBox (rt_sample fmt se mg) doc_shifted_sample =
     Inr (Finite 400, Finite 600, Finite 400, Finite 600)"
  by (simp add: get_viewBox_def doc_shifted_sample_def split_shifted rt_sample_def float_sample_def)

lemma get_viewBox_square:
  "get_viewBox (rt_sample fmt se mg) doc_square_sample =
     Inr (Finite 0, Finite 0, Finite 600, Finite 600)"
  by (simp add: get_viewBox_def doc_square_sample_def split_square rt_sample_def float_sample_def)

theorem silhouette_recolor_witness:
  "\<forall>fmt se mg. \<exists>new_root e'.
     tray_body_root (rt_sample fmt se mg) ''white'' doc_sample = Inr new_root \<and>
     1 < length (children doc_sample) \<and>
     get_at [] (children doc_sample ! 1) =
       Some (Element ''{http://www.w3.org/2000/svg}g'' [(''fill'', ''none''), (''stroke'', ''#000000'')]
          None None
          [Element ''{http://www.w3.org/2000/svg}circle'' [(''fill'', ''#6ad7E5''), (''r'', ''5'')]
             None None [],
           Element ''{http://www.w3.org/2000/svg}circle'' [(''fill'', ''#FFFFFF'')] None None []]) \<and>
     get_at [0, 0, 1] new_root = Some e' \<and>
     attrib e' = [(''fill'', ''none''), (''stroke'', ''white'')]"
proof (intro allI)
  fix fmt se mg
  let ?rt = "rt_sample fmt se mg"
  let ?e = "Element ''{http://www.w3.org/2000/svg}g'' [(''fill'', ''none''), (''stroke'', ''#000000'')]
          None None
          [Element ''{http://www.w3.org/2000/svg}circle'' [(''fill'', ''#6ad7E5''), (''r'', ''5'')]
             None None [],
           Element ''{http://www.w3.org/2000/svg}circle'' [(''fill'', ''#FFFFFF'')] None None []]"
  obtain new_root where nr: "tray_body_root ?rt ''white'' doc_sample = Inr new_root"
    using tray_body_root_value [OF get_viewBox_sample] by blast
  have i: "1 < length (children doc_sample)"
    by (simp add: doc_sample_def)
  have g: "get_at [] (children doc_sample ! 1) = Some ?e"
    by (simp add: doc_sample_def)
  from silhouette_recolor [OF nr i g] obtain e' where
    e': "get_at [0, 0, 1] new_root = Some e'" "attrib e' = recolor ''white'' (attrib ?e)"
    by blast
  have "attrib e' = [(''fill'', ''none''), (''stroke'', ''white'')]"
    by (simp add: e'(2) recolor_def has_fill_def)
  with nr i g e'(1)
  show "\<exists>new_root e'.
     tray_body_root ?rt ''white'' doc_sample = Inr new_root \<and>
     1 < length (children doc_sample) \<and>
     get_at [] (children doc_sample ! 1) = Some ?e \<and>
     get_at [0, 0, 1] new_root = Some e' \<and>
     attrib e' = [(''fill'', ''none''), (''stroke'', ''white'')]"
    by blast
qed

lemma square_offsets:
  assumes "feq w h" "w \<noteq> PosInf" "w \<noteq> NegInf"
  shows "py_max w h = w \<and> feq (half (fsub w w)) (Finite 0) \<and> feq (half (fsub w h)) (Finite 0) \<and>
         (w \<noteq> NegZero \<longrightarrow> half (fsub w w) = Finite 0 \<and> half (fsub w h) = Finite 0) \<and>
         half (fsub w w) = Finite 0"
  using assms
  by (cases w; cases h) (auto simp: py_max_def round_double_0)

text \<open>
  Claim C6, amended. When the \<^verbatim>\<open>viewBox\<close> has \<open>w == h\<close> and \<open>w\<close> is not an infinity,
  \<^verbatim>\<open>make_square\<close> writes \<^verbatim>\<open>viewBox\<close>, \<^verbatim>\<open>width\<close> and \<^verbatim>\<open>height\<close> from \<open>w\<close> itself and the
  translation of the group is zero: \<open>dx\<close> is \<open>0.0\<close>, and \<open>dy\<close> is \<open>0.0\<close> (it is the negative
  zero in the one case \<open>w = -0.0\<close>, \<open>h = 0.0\<close>).
\<close>

theorem make_square_already_square:
  assumes "get_viewBox rt root_el = Inr (x, y, w, h)"
    and "feq w h" and "w \<noteq> PosInf" and "w \<noteq> NegInf"
  shows "make_square rt root_el =
     Inr (Element ''{http://www.w3.org/2000/svg}svg''
            [(''viewBox'', ''0 0 '' @ py_format rt w @ '' '' @ py_format rt w),
             (''width'', py_format rt w),
             (''height'', py_format rt w),
             (''version'', ''1.1'')] None None
            [Element ''{http://www.w3.org/2000/svg}g''
               [(''transform'', ''translate('' @ py_format rt (dx w h) @ '', ''
                    @ py_format rt (dy w h) @ '')'')]
               None None (children root_el)]) \<and>
     target_dim w h = w \<and>
     dx w h = Finite 0 \<and>
     feq (dy w h) (Finite 0) \<and>
     (w \<noteq> NegZero \<longrightarrow> dy w h = Finite 0)"
proof -
  note sq = square_offsets [OF assms(2-4)]
  have td: "target_dim w h = w"
    using sq by (simp add: target_dim_def)
  have 1: "make_square rt root_el =
     Inr (Element ''{http://www.w3.org/2000/svg}svg''
            [(''viewBox'', ''0 0 '' @ py_format rt w @ '' '' @ py_format rt w),
             (''width'', py_format rt w),
             (''height'', py_format rt w),
             (''version'', ''1.1'')] None None
            [Element ''{http://www.w3.org/2000/svg}g''
               [(''transform'', ''translate('' @ py_format rt (dx w h) @ '', ''
                    @ py_format rt (dy w h) @ '')'')]
               None None (children root_el)])"
    using make_square_value [OF assms(1)]
    by (simp add: SVG_svg_def SVG_g_def td)
  have 2: "dx w h = Finite 0"
    using sq by (simp add: dx_def td)
  have 3: "feq (dy w h) (Finite 0)"
    using sq by (simp add: dy_def td)
  have 4: "w \<noteq> NegZero \<longrightarrow> dy w h = Finite 0"
    using sq by (simp add: dy_def td)
  show ?thesis
    by (rule conjI [OF 1 conjI [OF td conjI [OF 2 conjI [OF 3 4]]]])
qed

theorem make_square_already_square_witness:
  "\<forall>fmt se mg.
     get_viewBox (rt_sample fmt se mg) doc_square_sample = Inr (Finite 0, Finite 0, Finite 600, Finite 600) \<and>
     feq (Finite 600) (Finite 600) \<and> Finite 600 \<noteq> PosInf \<and> Finite 600 \<noteq> NegInf \<and>
     make_square (rt_sample fmt se mg) doc_square_sample =
       Inr (Element ''{http://www.w3.org/2000/svg}svg''
              [(''viewBox'', ''0 0 '' @ fmt (Finite 600) @ '' '' @ fmt (Finite 600)),
               (''width'', fmt (Finite 600)),
               (''height'', fmt (Finite 600)),
               (''version'', ''1.1'')] None None
              [Element ''{http://www.w3.org/2000/svg}g''
                 [(''transform'', ''translate('' @ fmt (Finite 0) @ '', '' @ fmt (Finite 0) @ '')'')]
                 None None (children doc_square_sample)])"
proof (intro allI)
  fix fmt se mg
  have f: "py_format (rt_sample fmt se mg) = fmt"
    by (simp add: rt_sample_def)
  have e: "feq (Finite 600) (Finite 600)" and p: "Finite 600 \<noteq> PosInf" and n: "Finite 600 \<noteq> NegInf"
    by simp_all
  show "get_viewBox (rt_sample fmt se mg) doc_square_sample = Inr (Finite 0, Finite 0, Finite 600, Finite 600) \<and>
     feq (Finite 600) (Finite 600) \<and> Finite 600 \<noteq> PosInf \<and> Finite 600 \<noteq> NegInf \<and>
     make_square (rt_sample fmt se mg) doc_square_sample =
       Inr (Element ''{http://www.w3.org/2000/svg}svg''
              [(''viewBox'', ''0 0 '' @ fmt (Finite 600) @ '' '' @ fmt (Finite 600)),
               (''width'', fmt (Finite 600)),
               (''height'', fmt (Finite 600)),
               (''version'', ''1.1'')] None None
              [Element ''{http://www.w3.org/2000/svg}g''
                 [(''transform'', ''translate('' @ fmt (Finite 0) @ '', '' @ fmt (Finite 0) @ '')'')]
                 None None (children doc_square_sample)])"
    using make_square_already_square [OF get_viewBox_square e p n, of fmt se mg]
    by (simp add: f get_viewBox_square)
qed

text \<open>
  The restriction is needed. The \<^verbatim>\<open>viewBox\<close> text \<^verbatim>\<open>0 0 inf inf\<close> is read by \<^verbatim>\<open>float\<close> as
  two infinities, which are equal; \<open>inf - inf\<close> is a NaN, so both offsets are NaN and the
  script writes \<^verbatim>\<open>translate(nan, nan)\<close>.
\<close>

theorem make_square_infinite_square:
  "feq PosInf PosInf \<and> target_dim PosInf PosInf = PosInf \<and>
   dx PosInf PosInf = NaN \<and> dy PosInf PosInf = NaN \<and> \<not> feq (dx PosInf PosInf) (Finite 0)"
  by (simp add: target_dim_def dx_def dy_def py_max_def)

text \<open>
  Claim C5 as stated fails: with the centre at half the reference width 401.98 the formula
  gives 108.99, and \<^verbatim>\<open>create_pads\<close> uses 109.
\<close>

theorem pad_start_x_not_exact:
  "rat_of_int start_x \<noteq> (40198 / 100) / 2 - (2 * rat_of_int size_pad + rat_of_int gap) / 2"
  by (simp add: start_x_def size_pad_def gap_def)

text \<open>
  Claim C5, amended. The pads follow the centring formula with the centre rounded to 201, as
  the comments of \<^verbatim>\<open>create_pads\<close> say: \<open>start_x = 201 - (2 * size + gap) / 2 = 109\<close>, with
  \<open>size = 85\<close>, \<open>gap = 14\<close> and \<open>start_y = 260\<close>; the four positions are \<open>(start_x, start_y)\<close>,
  \<open>(start_x + size + gap, start_y)\<close>, \<open>(start_x, start_y + size + gap)\<close> and
  \<open>(start_x + size + gap, start_y + size + gap)\<close>, and they are the \<^verbatim>\<open>x\<close> and \<^verbatim>\<open>y\<close> of the
  four rects, in this order.
\<close>

theorem pad_layout:
  "size_pad = 85 \<and> gap = 14 \<and> start_y = 260 \<and>
   rat_of_int start_x = 201 - (2 * rat_of_int size_pad + rat_of_int gap) / 2 \<and>
   start_x = 109 \<and>
   pads_coords =
     [(start_x, start_y), (start_x + size_pad + gap, start_y),
      (start_x, start_y + size_pad + gap), (start_x + size_pad + gap, start_y + size_pad + gap)] \<and>
   map (\<lambda>r. (map_of (attrib r) ''x'', map_of (attrib r) ''y'')) (children (create_pads color)) =
     map (\<lambda>xy. (Some (str_int (fst xy)), Some (str_int (snd xy)))) pads_coords"
proof -
  have 1: "rat_of_int start_x = 201 - (2 * rat_of_int size_pad + rat_of_int gap) / 2"
    by (simp add: start_x_def size_pad_def gap_def)
  have 2: "map (\<lambda>r. (map_of (attrib r) ''x'', map_of (attrib r) ''y'')) (children (create_pads color)) =
     map (\<lambda>xy. (Some (str_int (fst xy)), Some (str_int (snd xy)))) pads_coords"
    by (simp add: create_pads_def pads_coords_def pad_rect_def new_Element_def)
  show ?thesis
    using 1 2 by (simp add: size_pad_def gap_def start_y_def start_x_def pads_coords_def)
qed

subsection \<open>Rounding to a double\<close>

lemma pow2_power_int: "pow2 e = power_int 2 e"
  by (simp add: pow2_def power_int_def power_one_over inverse_eq_divide)

lemma pow2_pos: "0 < pow2 e"
  by (simp add: pow2_power_int)

lemma pow2_add: "pow2 (a + b) = pow2 a * pow2 b"
  by (simp add: pow2_power_int power_int_add)

lemma pow2_diff: "pow2 (a - b) = pow2 a / pow2 b"
  by (simp add: pow2_power_int power_int_diff)

lemma pow2_mono: "a \<le> b \<Longrightarrow> pow2 a \<le> pow2 b"
  by (simp add: pow2_power_int power_int_increasing)

lemma pow2_less_imp_less: "pow2 a < pow2 b \<Longrightarrow> a < b"
  using pow2_mono [of b a] by (cases "a < b") auto

lemma pow2_nat: "0 \<le> e \<Longrightarrow> pow2 e = of_int (2 ^ nat e)"
  by (simp add: pow2_def)

lemma bit_length_bounds:
  "0 < n \<Longrightarrow> 1 \<le> bit_length n \<and> 2 ^ nat (bit_length n - 1) \<le> n \<and> n < 2 ^ nat (bit_length n)"
proof (induction n rule: bit_length.induct)
  case (1 n)
  show ?case
  proof (cases "n div 2 = 0")
    case True
    with "1.prems" have n: "n = 1" by presburger
    have "bit_length 1 = 1"
      by (simp add: bit_length.simps [of 1] bit_length.simps [of 0])
    with n show ?thesis by simp
  next
    case False
    with "1.prems" have pos: "0 < n div 2" by presburger
    with "1.prems" "1.IH" have ih: "1 \<le> bit_length (n div 2)"
      "2 ^ nat (bit_length (n div 2) - 1) \<le> n div 2"
      "n div 2 < 2 ^ nat (bit_length (n div 2))"
      by simp_all
    define k where "k = bit_length (n div 2)"
    have bl: "bit_length n = 1 + k"
      using "1.prems" by (simp add: bit_length.simps [of n] k_def)
    have p: "(2::int) ^ nat k = 2 * 2 ^ nat (k - 1)"
      using ih(1) by (simp add: k_def flip: power_Suc)
    have "2 ^ nat (1 + k - 1) \<le> n"
      using ih(2) p by (simp add: k_def)
    moreover have "n < 2 ^ nat (1 + k)"
    proof -
      have "(2::int) ^ nat (1 + k) = 2 * 2 ^ nat k"
        using ih(1) by (simp add: k_def nat_add_distrib)
      with ih(3) show ?thesis by (simp add: k_def)
    qed
    ultimately show ?thesis
      using ih(1) by (simp add: bl k_def)
  qed
qed

lemma bit_length_pow2:
  assumes "0 < n"
  shows "pow2 (bit_length n - 1) \<le> of_int n" and "of_int n < pow2 (bit_length n)"
proof -
  from bit_length_bounds [OF assms] have b: "1 \<le> bit_length n"
    "2 ^ nat (bit_length n - 1) \<le> n" "n < 2 ^ nat (bit_length n)"
    by simp_all
  have "pow2 (bit_length n - 1) = of_int (2 ^ nat (bit_length n - 1))"
    using b(1) by (intro pow2_nat) simp
  also have "\<dots> \<le> of_int n"
    using b(2) by (simp only: of_int_le_iff)
  finally show "pow2 (bit_length n - 1) \<le> of_int n" .
  have "(of_int n :: rat) < of_int (2 ^ nat (bit_length n))"
    using b(3) by (simp only: of_int_less_iff)
  also have "\<dots> = pow2 (bit_length n)"
    using b(1) by (intro pow2_nat [symmetric]) simp
  finally show "of_int n < pow2 (bit_length n)" .
qed

lemma floor_log2_bounds:
  assumes "0 < a"
  shows "pow2 (floor_log2 a) \<le> a" and "a < pow2 (floor_log2 a + 1)"
proof -
  obtain n d where q: "quotient_of a = (n, d)"
    by (cases "quotient_of a")
  then have d: "0 < d" and a: "a = of_int n / of_int d"
    by (simp_all add: quotient_of_denom_pos quotient_of_div)
  from assms a d have n: "0 < n"
    by (simp add: zero_less_divide_iff)
  define e0 where "e0 = bit_length n - bit_length d"
  have fl: "floor_log2 a = (if pow2 e0 \<le> a then e0 else e0 - 1)"
    by (simp add: floor_log2_def q e0_def)
  have dpos: "(0::rat) < of_int d"
    using d by simp
  have lower: "pow2 (e0 - 1) \<le> a"
  proof -
    have "pow2 (e0 - 1) = pow2 (bit_length n - 1) / pow2 (bit_length d)"
      by (simp add: e0_def pow2_diff [symmetric] algebra_simps)
    also have "\<dots> \<le> of_int n / pow2 (bit_length d)"
      using bit_length_pow2(1) [OF n] by (simp add: divide_right_mono pow2_pos less_imp_le)
    also have "\<dots> \<le> of_int n / of_int d"
      using bit_length_pow2(2) [OF d] n dpos
      by (intro divide_left_mono) (simp_all add: pow2_pos less_imp_le)
    finally show ?thesis by (simp add: a)
  qed
  have upper: "a < pow2 (e0 + 1)"
  proof -
    have "a = of_int n / of_int d" by (rule a)
    also have "\<dots> < pow2 (bit_length n) / of_int d"
      using bit_length_pow2(2) [OF n] dpos by (simp add: divide_strict_right_mono)
    also have "\<dots> \<le> pow2 (bit_length n) / pow2 (bit_length d - 1)"
      using bit_length_pow2(1) [OF d] dpos
      by (intro divide_left_mono) (simp_all add: pow2_pos less_imp_le)
    also have "\<dots> = pow2 (e0 + 1)"
      by (simp add: e0_def pow2_diff [symmetric] algebra_simps)
    finally show ?thesis .
  qed
  show "pow2 (floor_log2 a) \<le> a"
    using lower by (simp add: fl)
  show "a < pow2 (floor_log2 a + 1)"
    using upper by (auto simp: fl not_le)
qed

lemma round_half_even_of_int: "round_half_even (of_int k) = k"
  by (simp add: round_half_even_def)

lemma round_double_exact:
  assumes m: "0 < m" "m < 2 ^ 53" and k: "- 1074 \<le> k" "k \<le> 971"
  shows "round_double (of_int m * pow2 k) = Finite (of_int m * pow2 k)"
proof -
  define q where "q = of_int m * pow2 k"
  have qpos: "0 < q"
    using m(1) by (simp add: q_def pow2_pos)
  define e where "e = floor_log2 q"
  have e1: "pow2 e \<le> q" and e2: "q < pow2 (e + 1)"
    using floor_log2_bounds [OF qpos] by (simp_all add: e_def)
  have m53: "(of_int m :: rat) < pow2 53"
    using m(2) by (simp add: pow2_def)
  have "q < pow2 53 * pow2 k"
    unfolding q_def using m53 by (simp add: pow2_pos)
  then have qk: "q < pow2 (53 + k)"
    by (simp add: pow2_add)
  with e1 have "pow2 e < pow2 (53 + k)"
    by simp
  then have ek: "e < 53 + k"
    by (rule pow2_less_imp_less)
  define p where "p = max (e - 52) (- 1074)"
  have pk: "p \<le> k"
    using ek k(1) by (simp add: p_def)
  have pe: "e - 52 \<le> p"
    by (simp add: p_def)
  define M where "M = m * 2 ^ nat (k - p)"
  have qM: "q / pow2 p = of_int M"
  proof -
    have "q / pow2 p = of_int m * pow2 (k - p)"
      by (simp add: q_def pow2_diff)
    also have "pow2 (k - p) = of_int (2 ^ nat (k - p))"
      using pk by (intro pow2_nat) simp
    finally show ?thesis
      by (simp add: M_def)
  qed
  have Mpos: "0 < M"
    using m(1) by (simp add: M_def)
  have "of_int M = q / pow2 p"
    by (simp add: qM)
  also have "\<dots> \<le> q / pow2 (e - 52)"
    using pe qpos by (intro divide_left_mono pow2_mono) (simp_all add: pow2_pos less_imp_le)
  also have "\<dots> < pow2 (e + 1) / pow2 (e - 52)"
    using e2 by (simp add: divide_strict_right_mono pow2_pos)
  also have "\<dots> = pow2 53"
    by (simp add: pow2_diff [symmetric])
  finally have "(of_int M :: rat) < of_int (2 ^ 53)"
    by (simp add: pow2_def)
  then have M53: "M < 2 ^ 53"
    by (simp only: of_int_less_iff)
  have e1024: "e < 1024"
    using ek k(2) by simp
  have again: "of_int M * pow2 p = q"
    using qM pow2_pos [of p] by (simp add: field_simps)
  have "round_double q = Finite (1 * of_int M * pow2 p)"
    using qpos e1024 M53 Mpos
    by (simp add: round_double_def Let_def e_def [symmetric] p_def [symmetric] qM
        round_half_even_of_int)
  then show ?thesis
    by (simp add: again q_def [symmetric])
qed

lemma round_double_of_int:
  assumes "0 \<le> d" "d < 2 ^ 53"
  shows "round_double (of_int d) = Finite (of_int d)"
proof (cases "d = 0")
  case True
  then show ?thesis by (simp add: round_double_0)
next
  case False
  with assms have "0 < d" by simp
  from round_double_exact [OF this assms(2), of 0] show ?thesis
    by (simp add: pow2_def)
qed

lemma round_double_half_int:
  assumes "0 \<le> d" "d < 2 ^ 53"
  shows "round_double (of_int d / 2) = Finite (of_int d / 2)"
proof (cases "d = 0")
  case True
  then show ?thesis by (simp add: round_double_0)
next
  case False
  with assms have "0 < d" by simp
  from round_double_exact [OF this assms(2), of "- 1"] show ?thesis
    by (simp add: pow2_def)
qed

subsection \<open>Where the artwork lands\<close>

lemma offsets_exact:
  assumes "round_double (max w0 h0 - w0) = Finite (max w0 h0 - w0)"
    and "round_double ((max w0 h0 - w0) / 2) = Finite ((max w0 h0 - w0) / 2)"
    and "round_double (max w0 h0 - h0) = Finite (max w0 h0 - h0)"
    and "round_double ((max w0 h0 - h0) / 2) = Finite ((max w0 h0 - h0) / 2)"
  shows "target_dim (Finite w0) (Finite h0) = Finite (max w0 h0)"
    and "dx (Finite w0) (Finite h0) = Finite ((max w0 h0 - w0) / 2)"
    and "dy (Finite w0) (Finite h0) = Finite ((max w0 h0 - h0) / 2)"
  using assms by (simp_all add: target_dim_def dx_def dy_def py_max_Finite)

lemma centre_exact:
  assumes "round_double (max w0 h0 - w0) = Finite (max w0 h0 - w0)"
    and "round_double ((max w0 h0 - w0) / 2) = Finite ((max w0 h0 - w0) / 2)"
    and "round_double (max w0 h0 - h0) = Finite (max w0 h0 - h0)"
    and "round_double ((max w0 h0 - h0) / 2) = Finite ((max w0 h0 - h0) / 2)"
    and "value_of x = Some x0" and "value_of y = Some y0"
  shows "artwork_centre x y (Finite w0) (Finite h0) = Some (x0 + max w0 h0 / 2, y0 + max w0 h0 / 2)"
    and "canvas_centre (Finite w0) (Finite h0) = Some (max w0 h0 / 2, max w0 h0 / 2)"
    and "centred x y (Finite w0) (Finite h0) \<longleftrightarrow> x0 = 0 \<and> y0 = 0"
proof -
  note o = offsets_exact [OF assms(1-4)]
  show a: "artwork_centre x y (Finite w0) (Finite h0) = Some (x0 + max w0 h0 / 2, y0 + max w0 h0 / 2)"
    using assms(5,6) by (simp add: artwork_centre_def o field_simps)
  show c: "canvas_centre (Finite w0) (Finite h0) = Some (max w0 h0 / 2, max w0 h0 / 2)"
    by (simp add: canvas_centre_def o)
  show "centred x y (Finite w0) (Finite h0) \<longleftrightarrow> x0 = 0 \<and> y0 = 0"
    by (auto simp: centred_def a c)
qed

lemma int_sizes_exact:
  assumes "0 \<le> m" "m < 2 ^ 53" "0 \<le> n" "n < 2 ^ 53"
  shows "round_double (max (of_int m) (of_int n) - of_int m) = Finite (max (of_int m) (of_int n) - of_int m)"
    and "round_double ((max (of_int m) (of_int n) - of_int m) / 2) =
           Finite ((max (of_int m) (of_int n) - of_int m) / 2)"
    and "round_double (max (of_int m) (of_int n) - of_int n) = Finite (max (of_int m) (of_int n) - of_int n)"
    and "round_double ((max (of_int m) (of_int n) - of_int n) / 2) =
           Finite ((max (of_int m) (of_int n) - of_int n) / 2)"
proof -
  have 1: "max (rat_of_int m) (of_int n) - of_int m = of_int (max m n - m)"
    and 2: "max (rat_of_int m) (of_int n) - of_int n = of_int (max m n - n)"
    by (simp_all add: max_def)
  have b1: "0 \<le> max m n - m" "max m n - m < 2 ^ 53"
    and b2: "0 \<le> max m n - n" "max m n - n < 2 ^ 53"
    using assms by (simp_all add: max_def)
  show "round_double (max (of_int m) (of_int n) - of_int m) = Finite (max (of_int m) (of_int n) - of_int m)"
    unfolding 1 by (rule round_double_of_int [OF b1])
  show "round_double ((max (of_int m) (of_int n) - of_int m) / 2) =
           Finite ((max (of_int m) (of_int n) - of_int m) / 2)"
    unfolding 1 by (rule round_double_half_int [OF b1])
  show "round_double (max (of_int m) (of_int n) - of_int n) = Finite (max (of_int m) (of_int n) - of_int n)"
    unfolding 2 by (rule round_double_of_int [OF b2])
  show "round_double ((max (of_int m) (of_int n) - of_int n) / 2) =
           Finite ((max (of_int m) (of_int n) - of_int n) / 2)"
    unfolding 2 by (rule round_double_half_int [OF b2])
qed

lemma centre_int:
  assumes "0 \<le> m" "m < 2 ^ 53" "0 \<le> n" "n < 2 ^ 53"
    and "value_of x = Some x0" and "value_of y = Some y0"
  shows "artwork_centre x y (Finite (of_int m)) (Finite (of_int n)) =
           Some (x0 + of_int (max m n) / 2, y0 + of_int (max m n) / 2)"
    and "canvas_centre (Finite (of_int m)) (Finite (of_int n)) =
           Some (of_int (max m n) / 2, of_int (max m n) / 2)"
    and "centred x y (Finite (of_int m)) (Finite (of_int n)) \<longleftrightarrow> x0 = 0 \<and> y0 = 0"
proof -
  have mx: "max (rat_of_int m) (of_int n) = of_int (max m n)"
    by (simp add: max_def)
  note c = centre_exact [OF int_sizes_exact [OF assms(1-4)] assms(5,6)]
  show "artwork_centre x y (Finite (of_int m)) (Finite (of_int n)) =
           Some (x0 + of_int (max m n) / 2, y0 + of_int (max m n) / 2)"
    using c(1) by (simp only: mx)
  show "canvas_centre (Finite (of_int m)) (Finite (of_int n)) =
           Some (of_int (max m n) / 2, of_int (max m n) / 2)"
    using c(2) by (simp only: mx)
  show "centred x y (Finite (of_int m)) (Finite (of_int n)) \<longleftrightarrow> x0 = 0 \<and> y0 = 0"
    by (rule c(3))
qed

lemma round_double_big_odd: "round_double 9007199254740993 = Finite 9007199254740992"
  by code_simp

lemma round_double_big_half: "round_double 4503599627370496 = Finite 4503599627370496"
  by code_simp









text \<open>
  Claim C9, amended. \<^verbatim>\<open>make_square\<close> never uses the \<open>x\<close> and \<open>y\<close> of the \<^verbatim>\<open>viewBox\<close>: two
  roots with the same children whose \<^verbatim>\<open>viewBox\<close> has the same \<open>w\<close> and \<open>h\<close> give the same
  result, whose \<^verbatim>\<open>viewBox\<close> starts at \<^verbatim>\<open>0 0\<close> and whose translation is written from \<open>w\<close> and
  \<open>h\<close> alone, around the unchanged children. Wherever the float subtraction and halving
  of the offsets are exact, and so for all integer sizes from 0 up to \<open>2 ^ 53\<close>, the centre
  of the old viewport lands at \<open>(x + s / 2, y + s / 2)\<close> for the side \<open>s\<close> of the canvas,
  whose centre is \<open>(s / 2, s / 2)\<close>: the artwork is centred exactly when \<open>x = 0\<close> and
  \<open>y = 0\<close>.
\<close>

theorem make_square_discards_origin:
  assumes "get_viewBox rt r1 = Inr (x1, y1, w, h)"
    and "get_viewBox rt r2 = Inr (x2, y2, w, h)"
    and "children r1 = children r2"
  shows "make_square rt r1 = make_square rt r2 \<and>
     (\<exists>new_root. make_square rt r1 = Inr new_root \<and>
        map_of (attrib new_root) ''viewBox'' =
          Some (''0 0 '' @ py_format rt (target_dim w h) @ '' '' @ py_format rt (target_dim w h)) \<and>
        map (\<lambda>g. map_of (attrib g) ''transform'') (children new_root) =
          [Some (''translate('' @ py_format rt (dx w h) @ '', '' @ py_format rt (dy w h) @ '')'')] \<and>
        map children (children new_root) = [children r1]) \<and>
     (\<forall>x0 y0 w0 h0.
        value_of x1 = Some x0 \<and> value_of y1 = Some y0 \<and> w = Finite w0 \<and> h = Finite h0 \<and>
        round_double (max w0 h0 - w0) = Finite (max w0 h0 - w0) \<and>
        round_double ((max w0 h0 - w0) / 2) = Finite ((max w0 h0 - w0) / 2) \<and>
        round_double (max w0 h0 - h0) = Finite (max w0 h0 - h0) \<and>
        round_double ((max w0 h0 - h0) / 2) = Finite ((max w0 h0 - h0) / 2) \<longrightarrow>
        artwork_centre x1 y1 w h = Some (x0 + max w0 h0 / 2, y0 + max w0 h0 / 2) \<and>
        canvas_centre w h = Some (max w0 h0 / 2, max w0 h0 / 2) \<and>
        (centred x1 y1 w h \<longleftrightarrow> x0 = 0 \<and> y0 = 0)) \<and>
     (\<forall>x0 y0 m n.
        value_of x1 = Some x0 \<and> value_of y1 = Some y0 \<and>
        w = Finite (of_int m) \<and> h = Finite (of_int n) \<and>
        0 \<le> m \<and> m < 2 ^ 53 \<and> 0 \<le> n \<and> n < 2 ^ 53 \<longrightarrow>
        artwork_centre x1 y1 w h = Some (x0 + of_int (max m n) / 2, y0 + of_int (max m n) / 2) \<and>
        canvas_centre w h = Some (of_int (max m n) / 2, of_int (max m n) / 2) \<and>
        (centred x1 y1 w h \<longleftrightarrow> x0 = 0 \<and> y0 = 0))"
proof -
  have 1: "make_square rt r1 = make_square rt r2"
    using make_square_value [OF assms(1)] make_square_value [OF assms(2)] assms(3) by simp
  have 2: "\<exists>new_root. make_square rt r1 = Inr new_root \<and>
        map_of (attrib new_root) ''viewBox'' =
          Some (''0 0 '' @ py_format rt (target_dim w h) @ '' '' @ py_format rt (target_dim w h)) \<and>
        map (\<lambda>g. map_of (attrib g) ''transform'') (children new_root) =
          [Some (''translate('' @ py_format rt (dx w h) @ '', '' @ py_format rt (dy w h) @ '')'')] \<and>
        map children (children new_root) = [children r1]"
    using make_square_value [OF assms(1)] by simp
  have 3: "\<forall>x0 y0 w0 h0.
        value_of x1 = Some x0 \<and> value_of y1 = Some y0 \<and> w = Finite w0 \<and> h = Finite h0 \<and>
        round_double (max w0 h0 - w0) = Finite (max w0 h0 - w0) \<and>
        round_double ((max w0 h0 - w0) / 2) = Finite ((max w0 h0 - w0) / 2) \<and>
        round_double (max w0 h0 - h0) = Finite (max w0 h0 - h0) \<and>
        round_double ((max w0 h0 - h0) / 2) = Finite ((max w0 h0 - h0) / 2) \<longrightarrow>
        artwork_centre x1 y1 w h = Some (x0 + max w0 h0 / 2, y0 + max w0 h0 / 2) \<and>
        canvas_centre w h = Some (max w0 h0 / 2, max w0 h0 / 2) \<and>
        (centred x1 y1 w h \<longleftrightarrow> x0 = 0 \<and> y0 = 0)"
  proof (intro allI impI)
    fix x0 y0 w0 h0
    assume h: "value_of x1 = Some x0 \<and> value_of y1 = Some y0 \<and> w = Finite w0 \<and> h = Finite h0 \<and>
        round_double (max w0 h0 - w0) = Finite (max w0 h0 - w0) \<and>
        round_double ((max w0 h0 - w0) / 2) = Finite ((max w0 h0 - w0) / 2) \<and>
        round_double (max w0 h0 - h0) = Finite (max w0 h0 - h0) \<and>
        round_double ((max w0 h0 - h0) / 2) = Finite ((max w0 h0 - h0) / 2)"
    then have e: "round_double (max w0 h0 - w0) = Finite (max w0 h0 - w0)"
      "round_double ((max w0 h0 - w0) / 2) = Finite ((max w0 h0 - w0) / 2)"
      "round_double (max w0 h0 - h0) = Finite (max w0 h0 - h0)"
      "round_double ((max w0 h0 - h0) / 2) = Finite ((max w0 h0 - h0) / 2)"
      "value_of x1 = Some x0" "value_of y1 = Some y0"
      and wh: "w = Finite w0" "h = Finite h0"
      by simp_all
    show "artwork_centre x1 y1 w h = Some (x0 + max w0 h0 / 2, y0 + max w0 h0 / 2) \<and>
        canvas_centre w h = Some (max w0 h0 / 2, max w0 h0 / 2) \<and>
        (centred x1 y1 w h \<longleftrightarrow> x0 = 0 \<and> y0 = 0)"
      unfolding wh by (intro conjI centre_exact [OF e])
  qed
  have 4: "\<forall>x0 y0 m n.
        value_of x1 = Some x0 \<and> value_of y1 = Some y0 \<and>
        w = Finite (of_int m) \<and> h = Finite (of_int n) \<and>
        0 \<le> m \<and> m < 2 ^ 53 \<and> 0 \<le> n \<and> n < 2 ^ 53 \<longrightarrow>
        artwork_centre x1 y1 w h = Some (x0 + of_int (max m n) / 2, y0 + of_int (max m n) / 2) \<and>
        canvas_centre w h = Some (of_int (max m n) / 2, of_int (max m n) / 2) \<and>
        (centred x1 y1 w h \<longleftrightarrow> x0 = 0 \<and> y0 = 0)"
  proof (intro allI impI)
    fix x0 y0 and m n :: int
    assume h: "value_of x1 = Some x0 \<and> value_of y1 = Some y0 \<and>
        w = Finite (of_int m) \<and> h = Finite (of_int n) \<and>
        0 \<le> m \<and> m < 2 ^ 53 \<and> 0 \<le> n \<and> n < 2 ^ 53"
    then have e: "0 \<le> m" "m < 2 ^ 53" "0 \<le> n" "n < 2 ^ 53"
      "value_of x1 = Some x0" "value_of y1 = Some y0"
      and wh: "w = Finite (of_int m)" "h = Finite (of_int n)"
      by simp_all
    show "artwork_centre x1 y1 w h = Some (x0 + of_int (max m n) / 2, y0 + of_int (max m n) / 2) \<and>
        canvas_centre w h = Some (of_int (max m n) / 2, of_int (max m n) / 2) \<and>
        (centred x1 y1 w h \<longleftrightarrow> x0 = 0 \<and> y0 = 0)"
      unfolding wh by (intro conjI centre_int [OF e])
  qed
  show ?thesis
    by (intro conjI) (rule 1 2 3 4)+
qed

theorem make_square_discards_origin_witness:
  "\<forall>fmt se mg.
     get_viewBox (rt_sample fmt se mg) doc_shifted_sample =
       Inr (Finite 400, Finite 600, Finite 400, Finite 600) \<and>
     get_viewBox (rt_sample fmt se mg) doc_sample = Inr (Finite 0, Finite 0, Finite 400, Finite 600) \<and>
     children doc_shifted_sample = children doc_sample \<and>
     make_square (rt_sample fmt se mg) doc_shifted_sample = make_square (rt_sample fmt se mg) doc_sample \<and>
     artwork_centre (Finite 400) (Finite 600) (Finite 400) (Finite 600) = Some (700, 900) \<and>
     canvas_centre (Finite 400) (Finite 600) = Some (300, 300) \<and>
     \<not> centred (Finite 400) (Finite 600) (Finite 400) (Finite 600)"
proof (intro allI)
  fix fmt se mg
  have c: "children doc_shifted_sample = children doc_sample"
    by (simp add: doc_shifted_sample_def)
  note t = make_square_discards_origin
    [OF get_viewBox_shifted [of fmt se mg] get_viewBox_sample [of fmt se mg] c]
  from t have eq: "make_square (rt_sample fmt se mg) doc_shifted_sample =
      make_square (rt_sample fmt se mg) doc_sample"
    by (elim conjE)
  from t have "\<forall>x0 y0 m n.
        value_of (Finite 400) = Some x0 \<and> value_of (Finite 600) = Some y0 \<and>
        Finite 400 = Finite (of_int m) \<and> Finite 600 = Finite (of_int n) \<and>
        0 \<le> m \<and> m < 2 ^ 53 \<and> 0 \<le> n \<and> n < 2 ^ 53 \<longrightarrow>
        artwork_centre (Finite 400) (Finite 600) (Finite 400) (Finite 600) =
          Some (x0 + of_int (max m n) / 2, y0 + of_int (max m n) / 2) \<and>
        canvas_centre (Finite 400) (Finite 600) = Some (of_int (max m n) / 2, of_int (max m n) / 2) \<and>
        (centred (Finite 400) (Finite 600) (Finite 400) (Finite 600) \<longleftrightarrow> x0 = 0 \<and> y0 = 0)"
    by (elim conjE)
  then have "value_of (Finite 400) = Some 400 \<and> value_of (Finite 600) = Some 600 \<and>
        Finite 400 = Finite (of_int 400) \<and> Finite 600 = Finite (of_int 600) \<and>
        (0::int) \<le> 400 \<and> (400::int) < 2 ^ 53 \<and> (0::int) \<le> 600 \<and> (600::int) < 2 ^ 53 \<longrightarrow>
        artwork_centre (Finite 400) (Finite 600) (Finite 400) (Finite 600) =
          Some (400 + of_int (max 400 600) / 2, 600 + of_int (max 400 600) / 2) \<and>
        canvas_centre (Finite 400) (Finite 600) = Some (of_int (max 400 600) / 2, of_int (max 400 600) / 2) \<and>
        (centred (Finite 400) (Finite 600) (Finite 400) (Finite 600) \<longleftrightarrow> (400::rat) = 0 \<and> (600::rat) = 0)"
    by (elim allE)
  then have g: "artwork_centre (Finite 400) (Finite 600) (Finite 400) (Finite 600) = Some (700, 900)"
    "canvas_centre (Finite 400) (Finite 600) = Some (300, 300)"
    "\<not> centred (Finite 400) (Finite 600) (Finite 400) (Finite 600)"
    by simp_all
  show "get_viewBox (rt_sample fmt se mg) doc_shifted_sample =
       Inr (Finite 400, Finite 600, Finite 400, Finite 600) \<and>
     get_viewBox (rt_sample fmt se mg) doc_sample = Inr (Finite 0, Finite 0, Finite 400, Finite 600) \<and>
     children doc_shifted_sample = children doc_sample \<and>
     make_square (rt_sample fmt se mg) doc_shifted_sample = make_square (rt_sample fmt se mg) doc_sample \<and>
     artwork_centre (Finite 400) (Finite 600) (Finite 400) (Finite 600) = Some (700, 900) \<and>
     canvas_centre (Finite 400) (Finite 600) = Some (300, 300) \<and>
     \<not> centred (Finite 400) (Finite 600) (Finite 400) (Finite 600)"
    by (intro conjI) (rule get_viewBox_shifted get_viewBox_sample c eq g)+
qed

text \<open>
  Without the restriction to exact offsets the claim fails. For the \<^verbatim>\<open>viewBox\<close>
  \<^verbatim>\<open>0.5 0 1 9007199254740994\<close> the difference \<open>2 ^ 53 + 1\<close> is no double and rounds to
  \<open>2 ^ 53\<close>, so \<open>dx\<close> is \<open>2 ^ 52\<close> and the artwork is centred although \<open>x\<close> is not 0.
\<close>

theorem make_square_centred_off_origin:
  "dx (Finite 1) (Finite 9007199254740994) = Finite 4503599627370496 \<and>
   dy (Finite 1) (Finite 9007199254740994) = Finite 0 \<and>
   artwork_centre (Finite (1 / 2)) (Finite 0) (Finite 1) (Finite 9007199254740994) =
     Some (4503599627370497, 4503599627370497) \<and>
   canvas_centre (Finite 1) (Finite 9007199254740994) = Some (4503599627370497, 4503599627370497) \<and>
   centred (Finite (1 / 2)) (Finite 0) (Finite 1) (Finite 9007199254740994)"
  by (simp add: centred_def artwork_centre_def canvas_centre_def target_dim_def dx_def dy_def
      py_max_Finite round_double_0 round_double_big_odd round_double_big_half)

subsection \<open>The application icon\<close>

text \<open>
  Claim C4. After the loop of \<^verbatim>\<open>create_app_icon\<close> over \<^verbatim>\<open>root.iter()\<close>, the element at any
  place \<open>p\<close> of the document has the same tag, text, tail and number of children, the same
  attribute names in the same order and the same value for every attribute other than
  \<^verbatim>\<open>fill\<close>; its \<^verbatim>\<open>fill\<close> is \<^verbatim>\<open>#00ADD8\<close> when the old value is \<^verbatim>\<open>#6AD7E5\<close> in any letter
  case (the eight spellings listed), and all its attributes are unchanged when \<^verbatim>\<open>fill\<close> is
  anything else or absent. Every element below the root is found again, so changed, in the
  tree that \<^verbatim>\<open>create_app_icon\<close> writes.
\<close>

theorem app_icon_recolor:
  assumes "get_at p root_el = Some e"
  shows "\<exists>e'. get_at p (update_blue root_el) = Some e' \<and>
           tag e' = tag e \<and> elem_text e' = elem_text e \<and> elem_tail e' = elem_tail e \<and>
           length (children e') = length (children e) \<and>
           attrib e' = blue_to_go_blue (attrib e) \<and>
           map fst (attrib e') = map fst (attrib e) \<and>
           (\<forall>k. k \<noteq> ''fill'' \<longrightarrow> map_of (attrib e') k = map_of (attrib e) k) \<and>
           (\<forall>v. map_of (attrib e) ''fill'' = Some v \<and> upper v = ''#6AD7E5'' \<longrightarrow>
                map_of (attrib e') ''fill'' = Some ''#00ADD8'') \<and>
           (\<forall>v. map_of (attrib e) ''fill'' = Some v \<and> upper v \<noteq> ''#6AD7E5'' \<longrightarrow>
                attrib e' = attrib e) \<and>
           (map_of (attrib e) ''fill'' = None \<longrightarrow> attrib e' = attrib e) \<and>
           (\<forall>v. upper v = ''#6AD7E5'' \<longleftrightarrow>
              (\<exists>a d x. v = [CHR ''#'', CHR ''6'', a, d, CHR ''7'', x, CHR ''5''] \<and>
                 (a = CHR ''A'' \<or> a = CHR ''a'') \<and> (d = CHR ''D'' \<or> d = CHR ''d'') \<and>
                 (x = CHR ''E'' \<or> x = CHR ''e''))) \<and>
           (\<forall>rt new_root i q. app_icon_root rt root_el = Inr new_root \<and> p = i # q \<longrightarrow>
                get_at (0 # p) new_root = Some e')"
proof -
  let ?e' = "map_attrib blue_to_go_blue e"
  have at: "get_at p (update_blue root_el) = Some ?e'"
    using assms by (simp add: update_blue_eq get_at_map_attrib)
  have final: "\<forall>rt new_root i q. app_icon_root rt root_el = Inr new_root \<and> p = i # q \<longrightarrow>
                get_at (0 # p) new_root = Some ?e'"
  proof (intro allI impI)
    fix rt new_root i q
    assume h: "app_icon_root rt root_el = Inr new_root \<and> p = i # q"
    then have p: "p = i # q" and nr: "app_icon_root rt root_el = Inr new_root"
      by simp_all
    obtain x y w h where vb: "get_viewBox rt root_el = Inr (x, y, w, h)"
    proof (cases "get_viewBox rt root_el")
      case (Inl err)
      have "map_of (attrib (append_child (update_blue root_el) (create_pads ''#FFFFFF''))) ''viewBox'' =
            map_of (attrib root_el) ''viewBox''"
        by (simp add: update_blue_eq blue_other)
      then have "get_viewBox rt (append_child (update_blue root_el) (create_pads ''#FFFFFF'')) =
            get_viewBox rt root_el"
        by (simp add: get_viewBox_def)
      with Inl nr show ?thesis
        by (simp add: app_icon_root_def make_square_def)
    next
      case (Inr v)
      with that show ?thesis by (cases v) auto
    qed
    from assms p have i: "i < length (children root_el)"
      and q: "get_at q (children root_el ! i) = Some e"
      by (simp_all split: if_splits)
    have "get_at (0 # i # q) new_root = Some ?e'"
      using nr app_icon_root_value [OF vb] i q
      by (auto simp: nth_append get_at_map_attrib)
    with p show "get_at (0 # p) new_root = Some ?e'"
      by simp
  qed
  show ?thesis
  proof (intro exI conjI)
    show "get_at p (update_blue root_el) = Some ?e'"
      by (rule at)
    show "\<forall>v. upper v = ''#6AD7E5'' \<longleftrightarrow>
              (\<exists>a d x. v = [CHR ''#'', CHR ''6'', a, d, CHR ''7'', x, CHR ''5''] \<and>
                 (a = CHR ''A'' \<or> a = CHR ''a'') \<and> (d = CHR ''D'' \<or> d = CHR ''d'') \<and>
                 (x = CHR ''E'' \<or> x = CHR ''e''))"
      by (intro allI) (rule upper_blue)
    show "\<forall>rt new_root i q. app_icon_root rt root_el = Inr new_root \<and> p = i # q \<longrightarrow>
                get_at (0 # p) new_root = Some ?e'"
      by (rule final)
    show "\<forall>v. map_of (attrib e) ''fill'' = Some v \<and> upper v \<noteq> ''#6AD7E5'' \<longrightarrow>
                attrib ?e' = attrib e"
      by (auto simp: blue_to_go_blue_def)
    show "map_of (attrib e) ''fill'' = None \<longrightarrow> attrib ?e' = attrib e"
      by (auto simp: blue_to_go_blue_def)
  qed (simp_all add: blue_keys blue_other blue_fill)
qed

theorem app_icon_recolor_witness:
  "\<exists>e'. get_at [1, 0] doc_sample =
           Some (Element ''{http://www.w3.org/2000/svg}circle'' [(''fill'', ''#6ad7E5''), (''r'', ''5'')]
             None None []) \<and>
         get_at [1, 0] (update_blue doc_sample) = Some e' \<and>
         attrib e' = [(''fill'', ''#00ADD8''), (''r'', ''5'')]"
proof -
  let ?e = "Element ''{http://www.w3.org/2000/svg}circle'' [(''fill'', ''#6ad7E5''), (''r'', ''5'')]
             None None []"
  have g: "get_at [1, 0] doc_sample = Some ?e"
    by (simp add: doc_sample_def)
  from app_icon_recolor [OF g] have
    "\<exists>e'. get_at [1, 0] (update_blue doc_sample) = Some e' \<and>
       attrib e' = blue_to_go_blue (attrib ?e)"
    by (elim exE conjE) (intro exI conjI; assumption)
  then obtain e' where
    e': "get_at [1, 0] (update_blue doc_sample) = Some e'"
      "attrib e' = blue_to_go_blue (attrib ?e)"
    by (elim exE conjE)
  have "upper ''#6ad7E5'' = ''#6AD7E5''"
    by (simp add: upper_blue)
  then have "attrib e' = [(''fill'', ''#00ADD8''), (''r'', ''5'')]"
    by (simp add: e'(2) blue_to_go_blue_def)
  with g e'(1) show ?thesis
    by blast
qed

subsection \<open>The external program and the temporary files\<close>

text \<open>
  What the stages of the script leave behind, one stage at a time: the files that
  \<^verbatim>\<open>cleanup_temp_files\<close> removes, the line an external call prints when the program
  returns, the exception that leaves \<^verbatim>\<open>render_svg\<close> and \<^verbatim>\<open>composite_tray_icon\<close> when the
  program cannot be run, and the four documents written before the first external call.
\<close>

lemma cleanup_temp_files_result:
  assumes "\<And>f. f \<in> set files \<Longrightarrow> fs w f \<noteq> Some Directory"
  shows "\<exists>w' removed.
     cleanup_temp_files files w = Inr w' \<and>
     fs w' = (\<lambda>p. if p \<in> set files then None else fs w p) \<and>
     stdout w' = stdout w @ map (\<lambda>f. ''Removed temp file '' @ f) removed \<and>
     distinct removed \<and>
     set removed = {f \<in> set files. fs w f \<noteq> None}"
  using assms
proof (induction files arbitrary: w)
  case Nil
  show ?case by simp
next
  case (Cons f files)
  show ?case
  proof (cases "fs w f = None")
    case True
    have "\<And>g. g \<in> set files \<Longrightarrow> fs w g \<noteq> Some Directory"
      using Cons.prems by simp
    from Cons.IH [OF this] obtain w' removed where
      r: "cleanup_temp_files files w = Inr w'"
        "fs w' = (\<lambda>p. if p \<in> set files then None else fs w p)"
        "stdout w' = stdout w @ map (\<lambda>f. ''Removed temp file '' @ f) removed"
        "distinct removed" "set removed = {f \<in> set files. fs w f \<noteq> None}"
      by blast
    have "cleanup_temp_files (f # files) w = Inr w'"
      using True r(1) by (simp add: os_path_exists_def)
    moreover have "fs w' = (\<lambda>p. if p \<in> set (f # files) then None else fs w p)"
      using True r(2) by auto
    moreover have "set removed = {g \<in> set (f # files). fs w g \<noteq> None}"
      using True r(5) by auto
    ultimately show ?thesis
      using r(3,4) by blast
  next
    case False
    let ?w1 = "print (''Removed temp file '' @ f) (w\<lparr>fs := (fs w)(f := None)\<rparr>)"
    have nd: "fs w f \<noteq> Some Directory"
      using Cons.prems by simp
    have "\<And>g. g \<in> set files \<Longrightarrow> fs ?w1 g \<noteq> Some Directory"
      using Cons.prems by (simp add: print_def)
    from Cons.IH [OF this] obtain w' removed where
      r: "cleanup_temp_files files ?w1 = Inr w'"
        "fs w' = (\<lambda>p. if p \<in> set files then None else fs ?w1 p)"
        "stdout w' = stdout ?w1 @ map (\<lambda>f. ''Removed temp file '' @ f) removed"
        "distinct removed" "set removed = {g \<in> set files. fs ?w1 g \<noteq> None}"
      by blast
    have rm: "os_remove f w = Inr (w\<lparr>fs := (fs w)(f := None)\<rparr>)"
      using False nd by (cases "fs w f") (auto simp: os_remove_def split: file_content.splits)
    have "cleanup_temp_files (f # files) w = Inr w'"
      using False r(1) by (simp add: os_path_exists_def rm)
    moreover have "fs w' = (\<lambda>p. if p \<in> set (f # files) then None else fs w p)"
      using r(2) by (auto simp: print_def)
    moreover have "stdout w' = stdout w @ map (\<lambda>f. ''Removed temp file '' @ f) (f # removed)"
      using r(3) by (simp add: print_def)
    moreover have "distinct (f # removed)"
      using r(4,5) by (simp add: print_def)
    moreover have "set (f # removed) = {g \<in> set (f # files). fs w g \<noteq> None}"
      using False r(5) by (auto simp: print_def)
    ultimately show ?thesis
      by blast
  qed
qed

lemma render_svg_returned:
  assumes "magick rt (render_cmd svg_path png_path) (fs w) = (Returned rc, files)"
  shows "render_svg rt svg_path png_path w =
           Inr (w\<lparr>fs := files, stdout := stdout w @ [render_report rt svg_path png_path rc]\<rparr>)"
  using assms by (simp add: render_svg_def subprocess_run_def render_report_def print_def)

lemma composite_returned:
  assumes "magick rt (composite_cmd body_png pads_png output_png) (fs w) = (Returned rc, files)"
  shows "composite_tray_icon rt body_png pads_png output_png w =
           Inr (w\<lparr>fs := files,
                  stdout := stdout w @ [composite_report rt body_png pads_png output_png rc]\<rparr>)"
  using assms by (simp add: composite_tray_icon_def subprocess_run_def composite_report_def print_def)

lemma render_svg_raised:
  assumes "magick rt (render_cmd svg_path png_path) (fs w) = (Raised e, files)"
    and "\<And>cmd rc. e \<noteq> CalledProcessError cmd rc"
  shows "render_svg rt svg_path png_path w = Inl e"
  using assms by (cases e) (auto simp: render_svg_def subprocess_run_def)

lemma composite_raised:
  assumes "magick rt (composite_cmd body_png pads_png output_png) (fs w) = (Raised e, files)"
    and "\<And>cmd rc. e \<noteq> CalledProcessError cmd rc"
  shows "composite_tray_icon rt body_png pads_png output_png w = Inl e"
  using assms by (cases e) (auto simp: composite_tray_icon_def subprocess_run_def)

lemma run_stages_append:
  "run_stages (xs @ ys) w = (case run_stages xs w of Inl e \<Rightarrow> Inl e | Inr w' \<Rightarrow> run_stages ys w')"
  by (induction xs arbitrary: w) (auto split: sum.splits)

lemma main_after_svgs:
  assumes "run_stages [create_app_icon rt, create_tray_layers rt] w = Inr w2"
  shows "main rt w =
     run_stages
       [render_svg rt ''app_icon.svg'' ''../../assets/app_icon.png'',
        render_svg rt ''tray_body.svg'' ''tray_body.png'',
        render_svg rt ''tray_body_black.svg'' ''tray_body_black.png'',
        render_svg rt ''tray_pads.svg'' ''tray_pads.png'',
        composite_tray_icon rt ''tray_body.png'' ''tray_pads.png'' ''../../assets/tray_icon.png'',
        composite_tray_icon rt ''tray_body_black.png'' ''tray_pads.png''
          ''../../assets/tray_icon_black.png'',
        cleanup_temp_files
          [''app_icon.svg'',
           ''tray_body.svg'', ''tray_body.png'',
           ''tray_body_black.svg'', ''tray_body_black.png'',
           ''tray_pads.svg'', ''tray_pads.png''],
        (\<lambda>w. Inr (print ''Icon generation complete.'' w))] w2"
proof -
  have "main rt w =
     run_stages
       ([create_app_icon rt, create_tray_layers rt] @
        [render_svg rt ''app_icon.svg'' ''../../assets/app_icon.png'',
         render_svg rt ''tray_body.svg'' ''tray_body.png'',
         render_svg rt ''tray_body_black.svg'' ''tray_body_black.png'',
         render_svg rt ''tray_pads.svg'' ''tray_pads.png'',
         composite_tray_icon rt ''tray_body.png'' ''tray_pads.png'' ''../../assets/tray_icon.png'',
         composite_tray_icon rt ''tray_body_black.png'' ''tray_pads.png''
           ''../../assets/tray_icon_black.png'',
         cleanup_temp_files
           [''app_icon.svg'',
            ''tray_body.svg'', ''tray_body.png'',
            ''tray_body_black.svg'', ''tray_body_black.png'',
            ''tray_pads.svg'', ''tray_pads.png''],
         (\<lambda>w. Inr (print ''Icon generation complete.'' w))]) w"
    by (simp only: main_def append.simps)
  then show ?thesis
    by (simp only: run_stages_append assms sum.case)
qed

lemma main_aborts:
  assumes svgs: "run_stages [create_app_icon rt, create_tray_layers rt] w = Inr w2"
    and m1: "magick rt (render_cmd ''app_icon.svg'' ''../../assets/app_icon.png'') (fs w2) = (Raised e, files)"
    and other: "\<And>cmd rc. e \<noteq> CalledProcessError cmd rc"
  shows "main rt w = Inl e"
  unfolding main_after_svgs [OF svgs]
  by (simp only: run_stages.simps render_svg_raised [OF m1 other] sum.case)

lemma external_stages:
  assumes never_raises: "\<And>cmd files. \<exists>rc files'. magick rt cmd files = (Returned rc, files')"
  shows "\<exists>w8 rc1 rc2 rc3 rc4 rc5 rc6.
     run_stages
       [render_svg rt ''app_icon.svg'' ''../../assets/app_icon.png'',
        render_svg rt ''tray_body.svg'' ''tray_body.png'',
        render_svg rt ''tray_body_black.svg'' ''tray_body_black.png'',
        render_svg rt ''tray_pads.svg'' ''tray_pads.png'',
        composite_tray_icon rt ''tray_body.png'' ''tray_pads.png'' ''../../assets/tray_icon.png'',
        composite_tray_icon rt ''tray_body_black.png'' ''tray_pads.png''
          ''../../assets/tray_icon_black.png''] w2 = Inr w8 \<and>
     stdout w8 = stdout w2 @
       [render_report rt ''app_icon.svg'' ''../../assets/app_icon.png'' rc1,
        render_report rt ''tray_body.svg'' ''tray_body.png'' rc2,
        render_report rt ''tray_body_black.svg'' ''tray_body_black.png'' rc3,
        render_report rt ''tray_pads.svg'' ''tray_pads.png'' rc4,
        composite_report rt ''tray_body.png'' ''tray_pads.png'' ''../../assets/tray_icon.png'' rc5,
        composite_report rt ''tray_body_black.png'' ''tray_pads.png''
          ''../../assets/tray_icon_black.png'' rc6]"
proof -
  obtain rc1 f1 where m1: "magick rt (render_cmd ''app_icon.svg'' ''../../assets/app_icon.png'') (fs w2) = (Returned rc1, f1)"
    using never_raises by blast
  define w3 where "w3 = w2\<lparr>fs := f1, stdout := stdout w2 @ [render_report rt ''app_icon.svg'' ''../../assets/app_icon.png'' rc1]\<rparr>"
  have s1: "render_svg rt ''app_icon.svg'' ''../../assets/app_icon.png'' w2 = Inr w3"
    unfolding w3_def by (rule render_svg_returned [OF m1])
  obtain rc2 f2 where m2: "magick rt (render_cmd ''tray_body.svg'' ''tray_body.png'') (fs w3) = (Returned rc2, f2)"
    using never_raises by blast
  define w4 where "w4 = w3\<lparr>fs := f2, stdout := stdout w3 @ [render_report rt ''tray_body.svg'' ''tray_body.png'' rc2]\<rparr>"
  have s2: "render_svg rt ''tray_body.svg'' ''tray_body.png'' w3 = Inr w4"
    unfolding w4_def by (rule render_svg_returned [OF m2])
  obtain rc3 f3 where m3: "magick rt (render_cmd ''tray_body_black.svg'' ''tray_body_black.png'') (fs w4) = (Returned rc3, f3)"
    using never_raises by blast
  define w5 where "w5 = w4\<lparr>fs := f3, stdout := stdout w4 @ [render_report rt ''tray_body_black.svg'' ''tray_body_black.png'' rc3]\<rparr>"
  have s3: "render_svg rt ''tray_body_black.svg'' ''tray_body_black.png'' w4 = Inr w5"
    unfolding w5_def by (rule render_svg_returned [OF m3])
  obtain rc4 f4 where m4: "magick rt (render_cmd ''tray_pads.svg'' ''tray_pads.png'') (fs w5) = (Returned rc4, f4)"
    using never_raises by blast
  define w6 where "w6 = w5\<lparr>fs := f4, stdout := stdout w5 @ [render_report rt ''tray_pads.svg'' ''tray_pads.png'' rc4]\<rparr>"
  have s4: "render_svg rt ''tray_pads.svg'' ''tray_pads.png'' w5 = Inr w6"
    unfolding w6_def by (rule render_svg_returned [OF m4])
  obtain rc5 f5 where m5: "magick rt (composite_cmd ''tray_body.png'' ''tray_pads.png'' ''../../assets/tray_icon.png'') (fs w6) = (Returned rc5, f5)"
    using never_raises by blast
  define w7 where "w7 = w6\<lparr>fs := f5, stdout := stdout w6 @ [composite_report rt ''tray_body.png'' ''tray_pads.png'' ''../../assets/tray_icon.png'' rc5]\<rparr>"
  have s5: "composite_tray_icon rt ''tray_body.png'' ''tray_pads.png'' ''../../assets/tray_icon.png'' w6 = Inr w7"
    unfolding w7_def by (rule composite_returned [OF m5])
  obtain rc6 f6 where m6: "magick rt (composite_cmd ''tray_body_black.png'' ''tray_pads.png'' ''../../assets/tray_icon_black.png'') (fs w7) = (Returned rc6, f6)"
    using never_raises by blast
  define w8 where "w8 = w7\<lparr>fs := f6, stdout := stdout w7 @ [composite_report rt ''tray_body_black.png'' ''tray_pads.png'' ''../../assets/tray_icon_black.png'' rc6]\<rparr>"
  have s6: "composite_tray_icon rt ''tray_body_black.png'' ''tray_pads.png'' ''../../assets/tray_icon_black.png'' w7 = Inr w8"
    unfolding w8_def by (rule composite_returned [OF m6])
  have run: "run_stages
       [render_svg rt ''app_icon.svg'' ''../../assets/app_icon.png'',
        render_svg rt ''tray_body.svg'' ''tray_body.png'',
        render_svg rt ''tray_body_black.svg'' ''tray_body_black.png'',
        render_svg rt ''tray_pads.svg'' ''tray_pads.png'',
        composite_tray_icon rt ''tray_body.png'' ''tray_pads.png'' ''../../assets/tray_icon.png'',
        composite_tray_icon rt ''tray_body_black.png'' ''tray_pads.png''
          ''../../assets/tray_icon_black.png''] w2 = Inr w8"
    by (simp only: run_stages.simps s1 s2 s3 s4 s5 s6 sum.case)
  have out8: "stdout w8 = stdout w2 @
       [render_report rt ''app_icon.svg'' ''../../assets/app_icon.png'' rc1,
        render_report rt ''tray_body.svg'' ''tray_body.png'' rc2,
        render_report rt ''tray_body_black.svg'' ''tray_body_black.png'' rc3,
        render_report rt ''tray_pads.svg'' ''tray_pads.png'' rc4,
        composite_report rt ''tray_body.png'' ''tray_pads.png'' ''../../assets/tray_icon.png'' rc5,
        composite_report rt ''tray_body_black.png'' ''tray_pads.png''
          ''../../assets/tray_icon_black.png'' rc6]"
    by (simp add: w8_def w7_def w6_def w5_def w4_def w3_def)
  from run out8 show ?thesis
    by blast
qed

lemma main_after_external:
  assumes "run_stages [create_app_icon rt, create_tray_layers rt] w = Inr w2"
    and "run_stages
       [render_svg rt ''app_icon.svg'' ''../../assets/app_icon.png'',
        render_svg rt ''tray_body.svg'' ''tray_body.png'',
        render_svg rt ''tray_body_black.svg'' ''tray_body_black.png'',
        render_svg rt ''tray_pads.svg'' ''tray_pads.png'',
        composite_tray_icon rt ''tray_body.png'' ''tray_pads.png'' ''../../assets/tray_icon.png'',
        composite_tray_icon rt ''tray_body_black.png'' ''tray_pads.png''
          ''../../assets/tray_icon_black.png''] w2 = Inr w8"
  shows "main rt w =
     run_stages
       [cleanup_temp_files
          [''app_icon.svg'',
           ''tray_body.svg'', ''tray_body.png'',
           ''tray_body_black.svg'', ''tray_body_black.png'',
           ''tray_pads.svg'', ''tray_pads.png''],
        (\<lambda>w. Inr (print ''Icon generation complete.'' w))] w8"
proof -
  have "main rt w =
     run_stages
       ([create_app_icon rt, create_tray_layers rt] @
        [render_svg rt ''app_icon.svg'' ''../../assets/app_icon.png'',
         render_svg rt ''tray_body.svg'' ''tray_body.png'',
         render_svg rt ''tray_body_black.svg'' ''tray_body_black.png'',
         render_svg rt ''tray_pads.svg'' ''tray_pads.png'',
         composite_tray_icon rt ''tray_body.png'' ''tray_pads.png'' ''../../assets/tray_icon.png'',
         composite_tray_icon rt ''tray_body_black.png'' ''tray_pads.png''
           ''../../assets/tray_icon_black.png''] @
        [cleanup_temp_files
           [''app_icon.svg'',
            ''tray_body.svg'', ''tray_body.png'',
            ''tray_body_black.svg'', ''tray_body_black.png'',
            ''tray_pads.svg'', ''tray_pads.png''],
         (\<lambda>w. Inr (print ''Icon generation complete.'' w))]) w"
    by (simp only: main_def append.simps)
  then show ?thesis
    by (simp only: run_stages_append assms sum.case)
qed

lemma main_finishes:
  assumes "main rt w =
     run_stages
       [cleanup_temp_files
          [''app_icon.svg'',
           ''tray_body.svg'', ''tray_body.png'',
           ''tray_body_black.svg'', ''tray_body_black.png'',
           ''tray_pads.svg'', ''tray_pads.png''],
        (\<lambda>w. Inr (print ''Icon generation complete.'' w))] w8"
    and "\<forall>f \<in> set [''app_icon.svg'',
           ''tray_body.svg'', ''tray_body.png'',
           ''tray_body_black.svg'', ''tray_body_black.png'',
           ''tray_pads.svg'', ''tray_pads.png'']. fs w8 f \<noteq> Some Directory"
  shows "\<exists>w' removed. main rt w = Inr w' \<and>
     stdout w' = stdout w8 @ map (\<lambda>f. ''Removed temp file '' @ f) removed @
       [''Icon generation complete.'']"
proof -
  obtain w9 removed where
    c: "cleanup_temp_files
          [''app_icon.svg'',
           ''tray_body.svg'', ''tray_body.png'',
           ''tray_body_black.svg'', ''tray_body_black.png'',
           ''tray_pads.svg'', ''tray_pads.png''] w8 = Inr w9"
    and o: "stdout w9 = stdout w8 @ map (\<lambda>f. ''Removed temp file '' @ f) removed"
    using cleanup_temp_files_result [of _ w8] assms(2) by blast
  have "main rt w = Inr (print ''Icon generation complete.'' w9)"
    unfolding assms(1) by (simp only: run_stages.simps c sum.case)
  moreover have "stdout (print ''Icon generation complete.'' w9) =
      stdout w8 @ map (\<lambda>f. ''Removed temp file '' @ f) removed @ [''Icon generation complete.'']"
    by (simp add: print_def o)
  ultimately show ?thesis
    by blast
qed

lemma tray_pads_root_ok:
  assumes "get_viewBox rt root_el = Inr v"
  shows "\<exists>r. tray_pads_root rt root_el = Inr r"
proof -
  obtain x y w h where v: "v = (x, y, w, h)"
    by (cases v) auto
  let ?r2 = "append_child (remove_children root_el) (create_pads ''black'')"
  have "get_viewBox rt ?r2 = Inr (x, y, w, h)"
    using assms get_viewBox_attrib [of ?r2 root_el rt] by (simp add: v)
  from make_square_value [OF this] show ?thesis
    by (simp add: tray_pads_root_def)
qed

lemma write_tree_ok:
  "fs w filename \<noteq> Some Directory \<Longrightarrow>
   write_tree filename r w = Inr (w\<lparr>fs := (fs w)(filename \<mapsto> Svg r)\<rparr>)"
  by (simp add: write_tree_def)

lemma svg_stages:
  assumes can: "fs w CANONICAL_PATH = Some (Svg root_el)"
    and vb: "get_viewBox rt root_el = Inr v"
    and nd: "fs w ''app_icon.svg'' \<noteq> Some Directory" "fs w ''tray_body.svg'' \<noteq> Some Directory"
      "fs w ''tray_body_black.svg'' \<noteq> Some Directory" "fs w ''tray_pads.svg'' \<noteq> Some Directory"
  shows "\<exists>w2. run_stages [create_app_icon rt, create_tray_layers rt] w = Inr w2 \<and>
     stdout w2 = stdout w @ [''Created app_icon.svg'', ''Created tray_body.svg'',
       ''Created tray_body_black.svg'', ''Created tray_pads.svg''] \<and>
     (\<forall>p. fs w2 p = Some Directory \<longrightarrow> fs w p = Some Directory)"
proof -
  obtain x y wd h where v: "v = (x, y, wd, h)"
    by (cases v) auto
  note vb' = vb [unfolded v]
  obtain a where a: "app_icon_root rt root_el = Inr a"
    using app_icon_root_value [OF vb'] by blast
  obtain b where b: "tray_body_root rt ''white'' root_el = Inr b"
    using tray_body_root_value [OF vb'] by blast
  obtain c where c: "tray_body_root rt ''black'' root_el = Inr c"
    using tray_body_root_value [OF vb'] by blast
  obtain d where d: "tray_pads_root rt root_el = Inr d"
    using tray_pads_root_ok [OF vb] by blast
  define w1 where "w1 = print ''Created app_icon.svg'' (w\<lparr>fs := (fs w)(''app_icon.svg'' \<mapsto> Svg a)\<rparr>)"
  define w2 where "w2 = print ''Created tray_body.svg'' (w1\<lparr>fs := (fs w1)(''tray_body.svg'' \<mapsto> Svg b)\<rparr>)"
  define w3 where "w3 = print ''Created tray_body_black.svg'' (w2\<lparr>fs := (fs w2)(''tray_body_black.svg'' \<mapsto> Svg c)\<rparr>)"
  define w4 where "w4 = print ''Created tray_pads.svg'' (w3\<lparr>fs := (fs w3)(''tray_pads.svg'' \<mapsto> Svg d)\<rparr>)"
  have l0: "load_canonical w = Inr root_el"
    using can by (simp add: load_canonical_def)
  have l1: "load_canonical w1 = Inr root_el"
    using can by (simp add: load_canonical_def w1_def print_def CANONICAL_PATH_def)
  have l2: "load_canonical w2 = Inr root_el"
    using can by (simp add: load_canonical_def w2_def w1_def print_def CANONICAL_PATH_def)
  have l3: "load_canonical w3 = Inr root_el"
    using can by (simp add: load_canonical_def w3_def w2_def w1_def print_def CANONICAL_PATH_def)
  have s1: "create_app_icon rt w = Inr w1"
    using nd(1) by (simp add: create_app_icon_def l0 a APP_ICON_PATH_def write_tree_ok w1_def)
  have n1: "fs w1 ''tray_body.svg'' \<noteq> Some Directory"
    using nd(2) by (simp add: w1_def print_def)
  have n2: "fs w2 ''tray_body_black.svg'' \<noteq> Some Directory"
    using nd(3) by (simp add: w2_def w1_def print_def)
  have n3: "fs w3 ''tray_pads.svg'' \<noteq> Some Directory"
    using nd(4) by (simp add: w3_def w2_def w1_def print_def)
  have s2: "create_tray_body rt ''tray_body.svg'' ''white'' w1 = Inr w2"
    using n1 by (simp add: create_tray_body_def l1 b write_tree_ok w2_def)
  have s3: "create_tray_body rt ''tray_body_black.svg'' ''black'' w2 = Inr w3"
    using n2 by (simp add: create_tray_body_def l2 c write_tree_ok w3_def)
  have s4: "create_tray_pads rt w3 = Inr w4"
    using n3 by (simp add: create_tray_pads_def l3 d write_tree_ok w4_def)
  have "run_stages [create_app_icon rt, create_tray_layers rt] w = Inr w4"
    by (simp add: create_tray_layers_def s1 s2 s3 s4)
  moreover have "stdout w4 = stdout w @ [''Created app_icon.svg'', ''Created tray_body.svg'',
       ''Created tray_body_black.svg'', ''Created tray_pads.svg'']"
    by (simp add: w4_def w3_def w2_def w1_def print_def)
  moreover have "\<forall>p. fs w4 p = Some Directory \<longrightarrow> fs w p = Some Directory"
    by (simp add: w4_def w3_def w2_def w1_def print_def)
  ultimately show ?thesis
    by (intro exI conjI)
qed

lemma svg_stages_sample:
  "\<exists>w2. run_stages [create_app_icon (rt_sample fmt se mg), create_tray_layers (rt_sample fmt se mg)]
           world_sample = Inr w2 \<and>
        stdout w2 = [''Created app_icon.svg'', ''Created tray_body.svg'',
          ''Created tray_body_black.svg'', ''Created tray_pads.svg''] \<and>
        (\<forall>p. fs w2 p \<noteq> Some Directory)"
proof -
  have can: "fs world_sample CANONICAL_PATH = Some (Svg doc_sample)"
    by (simp add: world_sample_def)
  have nd: "fs world_sample ''app_icon.svg'' \<noteq> Some Directory"
    "fs world_sample ''tray_body.svg'' \<noteq> Some Directory"
    "fs world_sample ''tray_body_black.svg'' \<noteq> Some Directory"
    "fs world_sample ''tray_pads.svg'' \<noteq> Some Directory"
    by (simp_all add: world_sample_def CANONICAL_PATH_def)
  have none: "fs world_sample p \<noteq> Some Directory" for p
    by (simp add: world_sample_def)
  from svg_stages [OF can get_viewBox_sample nd, of fmt se mg] obtain w2 where
    "run_stages [create_app_icon (rt_sample fmt se mg), create_tray_layers (rt_sample fmt se mg)]
           world_sample = Inr w2"
    and "stdout w2 = stdout world_sample @ [''Created app_icon.svg'', ''Created tray_body.svg'',
          ''Created tray_body_black.svg'', ''Created tray_pads.svg'']"
    and "\<forall>p. fs w2 p = Some Directory \<longrightarrow> fs world_sample p = Some Directory"
    by (elim exE conjE)
  with none have "run_stages [create_app_icon (rt_sample fmt se mg), create_tray_layers (rt_sample fmt se mg)]
           world_sample = Inr w2 \<and>
        stdout w2 = [''Created app_icon.svg'', ''Created tray_body.svg'',
          ''Created tray_body_black.svg'', ''Created tray_pads.svg''] \<and>
        (\<forall>p. fs w2 p \<noteq> Some Directory)"
    by (simp add: world_sample_def)
  then show ?thesis
    by (rule exI)
qed

lemma render_svg_fails:
  "render_svg (rt_sample fmt se magick_fails) svg_path png_path w =
     Inr (w\<lparr>stdout := stdout w @
            [''Error rendering '' @ svg_path @ '': ''
               @ se (CalledProcessError (render_cmd svg_path png_path) 1)]\<rparr>)"
  by (simp add: render_svg_def subprocess_run_def rt_sample_def magick_fails_def print_def)

lemma composite_fails:
  "composite_tray_icon (rt_sample fmt se magick_fails) body_png pads_png output_png w =
     Inr (w\<lparr>stdout := stdout w @
            [''Error compositing '' @ output_png @ '': ''
               @ se (CalledProcessError (composite_cmd body_png pads_png output_png) 1)]\<rparr>)"
  by (simp add: composite_tray_icon_def subprocess_run_def rt_sample_def magick_fails_def print_def)

lemma external_fails:
  "\<exists>w8. run_stages
       [render_svg (rt_sample fmt se magick_fails) ''app_icon.svg'' ''../../assets/app_icon.png'',
        render_svg (rt_sample fmt se magick_fails) ''tray_body.svg'' ''tray_body.png'',
        render_svg (rt_sample fmt se magick_fails) ''tray_body_black.svg'' ''tray_body_black.png'',
        render_svg (rt_sample fmt se magick_fails) ''tray_pads.svg'' ''tray_pads.png'',
        composite_tray_icon (rt_sample fmt se magick_fails)
          ''tray_body.png'' ''tray_pads.png'' ''../../assets/tray_icon.png'',
        composite_tray_icon (rt_sample fmt se magick_fails)
          ''tray_body_black.png'' ''tray_pads.png'' ''../../assets/tray_icon_black.png''] w2 = Inr w8 \<and>
     fs w8 = fs w2 \<and>
     stdout w8 = stdout w2 @
       [''Error rendering app_icon.svg: '' @ se (CalledProcessError
          [''magick'', ''-background'', ''none'', ''app_icon.svg'', ''../../assets/app_icon.png''] 1),
        ''Error rendering tray_body.svg: '' @ se (CalledProcessError
          [''magick'', ''-background'', ''none'', ''tray_body.svg'', ''tray_body.png''] 1),
        ''Error rendering tray_body_black.svg: '' @ se (CalledProcessError
          [''magick'', ''-background'', ''none'', ''tray_body_black.svg'', ''tray_body_black.png''] 1),
        ''Error rendering tray_pads.svg: '' @ se (CalledProcessError
          [''magick'', ''-background'', ''none'', ''tray_pads.svg'', ''tray_pads.png''] 1),
        ''Error compositing ../../assets/tray_icon.png: '' @ se (CalledProcessError
          [''magick'', ''tray_body.png'', ''tray_pads.png'', ''-compose'', ''DstOut'', ''-composite'',
           ''../../assets/tray_icon.png''] 1),
        ''Error compositing ../../assets/tray_icon_black.png: '' @ se (CalledProcessError
          [''magick'', ''tray_body_black.png'', ''tray_pads.png'', ''-compose'', ''DstOut'',
           ''-composite'', ''../../assets/tray_icon_black.png''] 1)]"
  by (simp add: render_svg_fails composite_fails render_cmd_def composite_cmd_def)


text \<open>
  Claim C7. When the external program returns a code other than 0, \<^verbatim>\<open>render_svg\<close> returns
  normally: it has printed \<^verbatim>\<open>Error rendering\<close>, the path of the SVG and the text of the
  \<^verbatim>\<open>CalledProcessError\<close>, and whatever stages follow it run from there. The same holds of
  \<^verbatim>\<open>composite_tray_icon\<close>, which prints \<^verbatim>\<open>Error compositing\<close> and the path of the output.
  For the whole script: when the program always returns, with whatever codes, and the four
  documents have been written, all six external calls run and print one line each, the script
  goes on to \<^verbatim>\<open>cleanup_temp_files\<close>, and it ends with \<^verbatim>\<open>Icon generation complete.\<close> when
  none of the temporary paths names a directory.
\<close>

theorem soft_failure:
  "(\<forall>svg_path png_path (w::world) rc files.
      magick rt (render_cmd svg_path png_path) (fs w) = (Returned rc, files) \<and> rc \<noteq> 0 \<longrightarrow>
      render_svg rt svg_path png_path w =
        Inr (w\<lparr>fs := files,
               stdout := stdout w @
                 [''Error rendering '' @ svg_path @ '': ''
                    @ py_str_exn rt (CalledProcessError (render_cmd svg_path png_path) rc)]\<rparr>) \<and>
      (\<forall>stages. run_stages (render_svg rt svg_path png_path # stages) w =
         run_stages stages
           (w\<lparr>fs := files,
              stdout := stdout w @
                [''Error rendering '' @ svg_path @ '': ''
                   @ py_str_exn rt (CalledProcessError (render_cmd svg_path png_path) rc)]\<rparr>))) \<and>
   (\<forall>body_png pads_png output_png (w::world) rc files.
      magick rt (composite_cmd body_png pads_png output_png) (fs w) = (Returned rc, files) \<and> rc \<noteq> 0 \<longrightarrow>
      composite_tray_icon rt body_png pads_png output_png w =
        Inr (w\<lparr>fs := files,
               stdout := stdout w @
                 [''Error compositing '' @ output_png @ '': ''
                    @ py_str_exn rt (CalledProcessError (composite_cmd body_png pads_png output_png) rc)]\<rparr>) \<and>
      (\<forall>stages. run_stages (composite_tray_icon rt body_png pads_png output_png # stages) w =
         run_stages stages
           (w\<lparr>fs := files,
              stdout := stdout w @
                [''Error compositing '' @ output_png @ '': ''
                   @ py_str_exn rt (CalledProcessError (composite_cmd body_png pads_png output_png) rc)]\<rparr>))) \<and>
   (\<forall>w w2.
      (\<forall>cmd files. \<exists>rc files'. magick rt cmd files = (Returned rc, files')) \<and>
      run_stages [create_app_icon rt, create_tray_layers rt] w = Inr w2 \<longrightarrow>
      (\<exists>w8 rc1 rc2 rc3 rc4 rc5 rc6.
         run_stages
           [render_svg rt ''app_icon.svg'' ''../../assets/app_icon.png'',
            render_svg rt ''tray_body.svg'' ''tray_body.png'',
            render_svg rt ''tray_body_black.svg'' ''tray_body_black.png'',
            render_svg rt ''tray_pads.svg'' ''tray_pads.png'',
            composite_tray_icon rt ''tray_body.png'' ''tray_pads.png'' ''../../assets/tray_icon.png'',
            composite_tray_icon rt ''tray_body_black.png'' ''tray_pads.png''
              ''../../assets/tray_icon_black.png''] w2 = Inr w8 \<and>
         stdout w8 = stdout w2 @
           [render_report rt ''app_icon.svg'' ''../../assets/app_icon.png'' rc1,
            render_report rt ''tray_body.svg'' ''tray_body.png'' rc2,
            render_report rt ''tray_body_black.svg'' ''tray_body_black.png'' rc3,
            render_report rt ''tray_pads.svg'' ''tray_pads.png'' rc4,
            composite_report rt ''tray_body.png'' ''tray_pads.png'' ''../../assets/tray_icon.png'' rc5,
            composite_report rt ''tray_body_black.png'' ''tray_pads.png''
              ''../../assets/tray_icon_black.png'' rc6] \<and>
         main rt w =
           run_stages
             [cleanup_temp_files
                [''app_icon.svg'',
                 ''tray_body.svg'', ''tray_body.png'',
                 ''tray_body_black.svg'', ''tray_body_black.png'',
                 ''tray_pads.svg'', ''tray_pads.png''],
              (\<lambda>w. Inr (print ''Icon generation complete.'' w))] w8 \<and>
         ((\<forall>f \<in> set [''app_icon.svg'',
                 ''tray_body.svg'', ''tray_body.png'',
                 ''tray_body_black.svg'', ''tray_body_black.png'',
                 ''tray_pads.svg'', ''tray_pads.png'']. fs w8 f \<noteq> Some Directory) \<longrightarrow>
          (\<exists>w' removed. main rt w = Inr w' \<and>
             stdout w' = stdout w8 @ map (\<lambda>f. ''Removed temp file '' @ f) removed @
               [''Icon generation complete.'']))))"
proof (intro conjI allI impI)
  fix svg_path png_path and w :: world and rc files
  assume h: "magick rt (render_cmd svg_path png_path) (fs w) = (Returned rc, files) \<and> rc \<noteq> 0"
  then have r: "render_svg rt svg_path png_path w =
        Inr (w\<lparr>fs := files,
               stdout := stdout w @
                 [''Error rendering '' @ svg_path @ '': ''
                    @ py_str_exn rt (CalledProcessError (render_cmd svg_path png_path) rc)]\<rparr>)"
    using render_svg_returned [of rt svg_path png_path w rc files]
    by (simp add: render_report_def)
  show "render_svg rt svg_path png_path w =
        Inr (w\<lparr>fs := files,
               stdout := stdout w @
                 [''Error rendering '' @ svg_path @ '': ''
                    @ py_str_exn rt (CalledProcessError (render_cmd svg_path png_path) rc)]\<rparr>)"
    by (rule r)
  fix stages
  show "run_stages (render_svg rt svg_path png_path # stages) w =
         run_stages stages
           (w\<lparr>fs := files,
              stdout := stdout w @
                [''Error rendering '' @ svg_path @ '': ''
                   @ py_str_exn rt (CalledProcessError (render_cmd svg_path png_path) rc)]\<rparr>)"
    by (simp only: run_stages.simps r sum.case)
next
  fix body_png pads_png output_png and w :: world and rc files
  assume h: "magick rt (composite_cmd body_png pads_png output_png) (fs w) = (Returned rc, files) \<and> rc \<noteq> 0"
  then have r: "composite_tray_icon rt body_png pads_png output_png w =
        Inr (w\<lparr>fs := files,
               stdout := stdout w @
                 [''Error compositing '' @ output_png @ '': ''
                    @ py_str_exn rt (CalledProcessError (composite_cmd body_png pads_png output_png) rc)]\<rparr>)"
    using composite_returned [of rt body_png pads_png output_png w rc files]
    by (simp add: composite_report_def)
  show "composite_tray_icon rt body_png pads_png output_png w =
        Inr (w\<lparr>fs := files,
               stdout := stdout w @
                 [''Error compositing '' @ output_png @ '': ''
                    @ py_str_exn rt (CalledProcessError (composite_cmd body_png pads_png output_png) rc)]\<rparr>)"
    by (rule r)
  fix stages
  show "run_stages (composite_tray_icon rt body_png pads_png output_png # stages) w =
         run_stages stages
           (w\<lparr>fs := files,
              stdout := stdout w @
                [''Error compositing '' @ output_png @ '': ''
                   @ py_str_exn rt (CalledProcessError (composite_cmd body_png pads_png output_png) rc)]\<rparr>)"
    by (simp only: run_stages.simps r sum.case)
next
  fix w w2
  assume h: "(\<forall>cmd files. \<exists>rc files'. magick rt cmd files = (Returned rc, files')) \<and>
      run_stages [create_app_icon rt, create_tray_layers rt] w = Inr w2"
  then have nr: "\<And>cmd files. \<exists>rc files'. magick rt cmd files = (Returned rc, files')"
    and svgs: "run_stages [create_app_icon rt, create_tray_layers rt] w = Inr w2"
    by simp_all
  from external_stages [of rt w2, OF nr] obtain w8 rc1 rc2 rc3 rc4 rc5 rc6 where
    run: "run_stages
           [render_svg rt ''app_icon.svg'' ''../../assets/app_icon.png'',
            render_svg rt ''tray_body.svg'' ''tray_body.png'',
            render_svg rt ''tray_body_black.svg'' ''tray_body_black.png'',
            render_svg rt ''tray_pads.svg'' ''tray_pads.png'',
            composite_tray_icon rt ''tray_body.png'' ''tray_pads.png'' ''../../assets/tray_icon.png'',
            composite_tray_icon rt ''tray_body_black.png'' ''tray_pads.png''
              ''../../assets/tray_icon_black.png''] w2 = Inr w8"
    and out: "stdout w8 = stdout w2 @
           [render_report rt ''app_icon.svg'' ''../../assets/app_icon.png'' rc1,
            render_report rt ''tray_body.svg'' ''tray_body.png'' rc2,
            render_report rt ''tray_body_black.svg'' ''tray_body_black.png'' rc3,
            render_report rt ''tray_pads.svg'' ''tray_pads.png'' rc4,
            composite_report rt ''tray_body.png'' ''tray_pads.png'' ''../../assets/tray_icon.png'' rc5,
            composite_report rt ''tray_body_black.png'' ''tray_pads.png''
              ''../../assets/tray_icon_black.png'' rc6]"
    by blast
  note m = main_after_external [OF svgs run]
  have fin: "(\<forall>f \<in> set [''app_icon.svg'',
                 ''tray_body.svg'', ''tray_body.png'',
                 ''tray_body_black.svg'', ''tray_body_black.png'',
                 ''tray_pads.svg'', ''tray_pads.png'']. fs w8 f \<noteq> Some Directory) \<longrightarrow>
          (\<exists>w' removed. main rt w = Inr w' \<and>
             stdout w' = stdout w8 @ map (\<lambda>f. ''Removed temp file '' @ f) removed @
               [''Icon generation complete.''])"
    by (intro impI main_finishes [OF m])
  from run out m fin
  show "\<exists>w8 rc1 rc2 rc3 rc4 rc5 rc6.
         run_stages
           [render_svg rt ''app_icon.svg'' ''../../assets/app_icon.png'',
            render_svg rt ''tray_body.svg'' ''tray_body.png'',
            render_svg rt ''tray_body_black.svg'' ''tray_body_black.png'',
            render_svg rt ''tray_pads.svg'' ''tray_pads.png'',
            composite_tray_icon rt ''tray_body.png'' ''tray_pads.png'' ''../../assets/tray_icon.png'',
            composite_tray_icon rt ''tray_body_black.png'' ''tray_pads.png''
              ''../../assets/tray_icon_black.png''] w2 = Inr w8 \<and>
         stdout w8 = stdout w2 @
           [render_report rt ''app_icon.svg'' ''../../assets/app_icon.png'' rc1,
            render_report rt ''tray_body.svg'' ''tray_body.png'' rc2,
            render_report rt ''tray_body_black.svg'' ''tray_body_black.png'' rc3,
            render_report rt ''tray_pads.svg'' ''tray_pads.png'' rc4,
            composite_report rt ''tray_body.png'' ''tray_pads.png'' ''../../assets/tray_icon.png'' rc5,
            composite_report rt ''tray_body_black.png'' ''tray_pads.png''
              ''../../assets/tray_icon_black.png'' rc6] \<and>
         main rt w =
           run_stages
             [cleanup_temp_files
                [''app_icon.svg'',
                 ''tray_body.svg'', ''tray_body.png'',
                 ''tray_body_black.svg'', ''tray_body_black.png'',
                 ''tray_pads.svg'', ''tray_pads.png''],
              (\<lambda>w. Inr (print ''Icon generation complete.'' w))] w8 \<and>
         ((\<forall>f \<in> set [''app_icon.svg'',
                 ''tray_body.svg'', ''tray_body.png'',
                 ''tray_body_black.svg'', ''tray_body_black.png'',
                 ''tray_pads.svg'', ''tray_pads.png'']. fs w8 f \<noteq> Some Directory) \<longrightarrow>
          (\<exists>w' removed. main rt w = Inr w' \<and>
             stdout w' = stdout w8 @ map (\<lambda>f. ''Removed temp file '' @ f) removed @
               [''Icon generation complete.'']))"
    by (intro exI conjI)
qed

text \<open>
  With a program that returns 1 on every call, on the sample document: both functions print
  their error line, and the script prints the four \<^verbatim>\<open>Created\<close> lines, six error lines, the
  removals and \<^verbatim>\<open>Icon generation complete.\<close>
\<close>

theorem soft_failure_witness:
  "\<forall>fmt se.
     (magick (rt_sample fmt se magick_fails) (render_cmd ''app_icon.svg'' ''../../assets/app_icon.png'')
        (fs world_sample) = (Returned 1, fs world_sample) \<and> (1::int) \<noteq> 0) \<and>
     render_svg (rt_sample fmt se magick_fails) ''app_icon.svg'' ''../../assets/app_icon.png'' world_sample =
       Inr (world_sample\<lparr>stdout :=
              [''Error rendering app_icon.svg: '' @ se (CalledProcessError
                 [''magick'', ''-background'', ''none'', ''app_icon.svg'', ''../../assets/app_icon.png'']
                 1)]\<rparr>) \<and>
     (magick (rt_sample fmt se magick_fails)
        (composite_cmd ''tray_body.png'' ''tray_pads.png'' ''../../assets/tray_icon.png'')
        (fs world_sample) = (Returned 1, fs world_sample)) \<and>
     composite_tray_icon (rt_sample fmt se magick_fails)
         ''tray_body.png'' ''tray_pads.png'' ''../../assets/tray_icon.png'' world_sample =
       Inr (world_sample\<lparr>stdout :=
              [''Error compositing ../../assets/tray_icon.png: '' @ se (CalledProcessError
                 [''magick'', ''tray_body.png'', ''tray_pads.png'', ''-compose'', ''DstOut'',
                  ''-composite'', ''../../assets/tray_icon.png''] 1)]\<rparr>) \<and>
     (\<exists>w' removed.
        main (rt_sample fmt se magick_fails) world_sample = Inr w' \<and>
        stdout w' =
          [''Created app_icon.svg'', ''Created tray_body.svg'',
           ''Created tray_body_black.svg'', ''Created tray_pads.svg'',
           ''Error rendering app_icon.svg: '' @ se (CalledProcessError
              [''magick'', ''-background'', ''none'', ''app_icon.svg'', ''../../assets/app_icon.png''] 1),
           ''Error rendering tray_body.svg: '' @ se (CalledProcessError
              [''magick'', ''-background'', ''none'', ''tray_body.svg'', ''tray_body.png''] 1),
           ''Error rendering tray_body_black.svg: '' @ se (CalledProcessError
              [''magick'', ''-background'', ''none'', ''tray_body_black.svg'', ''tray_body_black.png''] 1),
           ''Error rendering tray_pads.svg: '' @ se (CalledProcessError
              [''magick'', ''-background'', ''none'', ''tray_pads.svg'', ''tray_pads.png''] 1),
           ''Error compositing ../../assets/tray_icon.png: '' @ se (CalledProcessError
              [''magick'', ''tray_body.png'', ''tray_pads.png'', ''-compose'', ''DstOut'', ''-composite'',
               ''../../assets/tray_icon.png''] 1),
           ''Error compositing ../../assets/tray_icon_black.png: '' @ se (CalledProcessError
              [''magick'', ''tray_body_black.png'', ''tray_pads.png'', ''-compose'', ''DstOut'',
               ''-composite'', ''../../assets/tray_icon_black.png''] 1)]
          @ map (\<lambda>f. ''Removed temp file '' @ f) removed @ [''Icon generation complete.''])"
proof (intro allI)
  fix fmt se
  define rt where "rt = rt_sample fmt se magick_fails"
  note sf = soft_failure [of rt]
  note A = sf [THEN conjunct1, rule_format]
  note B = sf [THEN conjunct2, THEN conjunct1, rule_format]
  note C = sf [THEN conjunct2, THEN conjunct2, rule_format]
  have m1: "magick rt (render_cmd ''app_icon.svg'' ''../../assets/app_icon.png'')
        (fs world_sample) = (Returned 1, fs world_sample) \<and> (1::int) \<noteq> 0"
    by (simp add: rt_def rt_sample_def magick_fails_def)
  have m2: "magick rt (composite_cmd ''tray_body.png'' ''tray_pads.png'' ''../../assets/tray_icon.png'')
        (fs world_sample) = (Returned 1, fs world_sample)"
    by (simp add: rt_def rt_sample_def magick_fails_def)
  have se: "py_str_exn rt = se"
    by (simp add: rt_def rt_sample_def)
  have r: "render_svg rt ''app_icon.svg'' ''../../assets/app_icon.png'' world_sample =
       Inr (world_sample\<lparr>stdout :=
              [''Error rendering app_icon.svg: '' @ se (CalledProcessError
                 [''magick'', ''-background'', ''none'', ''app_icon.svg'', ''../../assets/app_icon.png'']
                 1)]\<rparr>)"
    using A [OF m1, THEN conjunct1] by (simp add: se world_sample_def render_cmd_def)
  have c: "composite_tray_icon rt ''tray_body.png'' ''tray_pads.png'' ''../../assets/tray_icon.png''
         world_sample =
       Inr (world_sample\<lparr>stdout :=
              [''Error compositing ../../assets/tray_icon.png: '' @ se (CalledProcessError
                 [''magick'', ''tray_body.png'', ''tray_pads.png'', ''-compose'', ''DstOut'',
                  ''-composite'', ''../../assets/tray_icon.png''] 1)]\<rparr>)"
    using B [OF conjI [OF m2], THEN conjunct1] by (simp add: se world_sample_def composite_cmd_def)
  obtain w2 where svgs: "run_stages [create_app_icon rt, create_tray_layers rt] world_sample = Inr w2"
    and out2: "stdout w2 = [''Created app_icon.svg'', ''Created tray_body.svg'',
          ''Created tray_body_black.svg'', ''Created tray_pads.svg'']"
    and nd2: "\<forall>p. fs w2 p \<noteq> Some Directory"
    using svg_stages_sample [of fmt se magick_fails] unfolding rt_def by (elim exE conjE)
  have nr: "\<forall>cmd files. \<exists>rc files'. magick rt cmd files = (Returned rc, files')"
    by (simp add: rt_def rt_sample_def magick_fails_def)
  obtain w8 where run8: "run_stages
       [render_svg rt ''app_icon.svg'' ''../../assets/app_icon.png'',
        render_svg rt ''tray_body.svg'' ''tray_body.png'',
        render_svg rt ''tray_body_black.svg'' ''tray_body_black.png'',
        render_svg rt ''tray_pads.svg'' ''tray_pads.png'',
        composite_tray_icon rt ''tray_body.png'' ''tray_pads.png'' ''../../assets/tray_icon.png'',
        composite_tray_icon rt ''tray_body_black.png'' ''tray_pads.png''
          ''../../assets/tray_icon_black.png''] w2 = Inr w8"
    and fs8: "fs w8 = fs w2"
    and out8: "stdout w8 = stdout w2 @
       [''Error rendering app_icon.svg: '' @ se (CalledProcessError
          [''magick'', ''-background'', ''none'', ''app_icon.svg'', ''../../assets/app_icon.png''] 1),
        ''Error rendering tray_body.svg: '' @ se (CalledProcessError
          [''magick'', ''-background'', ''none'', ''tray_body.svg'', ''tray_body.png''] 1),
        ''Error rendering tray_body_black.svg: '' @ se (CalledProcessError
          [''magick'', ''-background'', ''none'', ''tray_body_black.svg'', ''tray_body_black.png''] 1),
        ''Error rendering tray_pads.svg: '' @ se (CalledProcessError
          [''magick'', ''-background'', ''none'', ''tray_pads.svg'', ''tray_pads.png''] 1),
        ''Error compositing ../../assets/tray_icon.png: '' @ se (CalledProcessError
          [''magick'', ''tray_body.png'', ''tray_pads.png'', ''-compose'', ''DstOut'', ''-composite'',
           ''../../assets/tray_icon.png''] 1),
        ''Error compositing ../../assets/tray_icon_black.png: '' @ se (CalledProcessError
          [''magick'', ''tray_body_black.png'', ''tray_pads.png'', ''-compose'', ''DstOut'',
           ''-composite'', ''../../assets/tray_icon_black.png''] 1)]"
    using external_fails [of fmt se w2] unfolding rt_def by (elim exE conjE)
  have nd8: "\<forall>f \<in> set [''app_icon.svg'',
                 ''tray_body.svg'', ''tray_body.png'',
                 ''tray_body_black.svg'', ''tray_body_black.png'',
                 ''tray_pads.svg'', ''tray_pads.png'']. fs w8 f \<noteq> Some Directory"
    using nd2 unfolding fs8 by (intro ballI) (rule spec)
  have m: "\<exists>w' removed. main rt world_sample = Inr w' \<and>
        stdout w' = stdout w8 @ map (\<lambda>f. ''Removed temp file '' @ f) removed @
          [''Icon generation complete.'']"
    using C [OF conjI [OF nr svgs]]
  proof (elim exE conjE)
    fix v8 rc1 rc2 rc3 rc4 rc5 rc6
    assume run: "run_stages
       [render_svg rt ''app_icon.svg'' ''../../assets/app_icon.png'',
        render_svg rt ''tray_body.svg'' ''tray_body.png'',
        render_svg rt ''tray_body_black.svg'' ''tray_body_black.png'',
        render_svg rt ''tray_pads.svg'' ''tray_pads.png'',
        composite_tray_icon rt ''tray_body.png'' ''tray_pads.png'' ''../../assets/tray_icon.png'',
        composite_tray_icon rt ''tray_body_black.png'' ''tray_pads.png''
          ''../../assets/tray_icon_black.png''] w2 = Inr v8"
      and fin: "(\<forall>f \<in> set [''app_icon.svg'',
                 ''tray_body.svg'', ''tray_body.png'',
                 ''tray_body_black.svg'', ''tray_body_black.png'',
                 ''tray_pads.svg'', ''tray_pads.png'']. fs v8 f \<noteq> Some Directory) \<longrightarrow>
          (\<exists>w' removed. main rt world_sample = Inr w' \<and>
             stdout w' = stdout v8 @ map (\<lambda>f. ''Removed temp file '' @ f) removed @
               [''Icon generation complete.''])"
    from run run8 have "v8 = w8"
      by simp
    with fin nd8 show ?thesis
      by (elim impE) simp_all
  qed
  then obtain w' removed where fin1: "main rt world_sample = Inr w'"
    and fin2: "stdout w' = stdout w8 @ map (\<lambda>f. ''Removed temp file '' @ f) removed @
          [''Icon generation complete.'']"
    by (elim exE conjE)
  have fin3: "stdout w' =
          [''Created app_icon.svg'', ''Created tray_body.svg'',
           ''Created tray_body_black.svg'', ''Created tray_pads.svg'',
           ''Error rendering app_icon.svg: '' @ se (CalledProcessError
              [''magick'', ''-background'', ''none'', ''app_icon.svg'', ''../../assets/app_icon.png''] 1),
           ''Error rendering tray_body.svg: '' @ se (CalledProcessError
              [''magick'', ''-background'', ''none'', ''tray_body.svg'', ''tray_body.png''] 1),
           ''Error rendering tray_body_black.svg: '' @ se (CalledProcessError
              [''magick'', ''-background'', ''none'', ''tray_body_black.svg'', ''tray_body_black.png''] 1),
           ''Error rendering tray_pads.svg: '' @ se (CalledProcessError
              [''magick'', ''-background'', ''none'', ''tray_pads.svg'', ''tray_pads.png''] 1),
           ''Error compositing ../../assets/tray_icon.png: '' @ se (CalledProcessError
              [''magick'', ''tray_body.png'', ''tray_pads.png'', ''-compose'', ''DstOut'', ''-composite'',
               ''../../assets/tray_icon.png''] 1),
           ''Error compositing ../../assets/tray_icon_black.png: '' @ se (CalledProcessError
              [''magick'', ''tray_body_black.png'', ''tray_pads.png'', ''-compose'', ''DstOut'',
               ''-composite'', ''../../assets/tray_icon_black.png''] 1)]
          @ map (\<lambda>f. ''Removed temp file '' @ f) removed @ [''Icon generation complete.'']"
    unfolding fin2 out8 out2 by simp
  from m1 [THEN conjunct1] m1 [THEN conjunct2] r m2 c fin1 fin3
  show "(magick (rt_sample fmt se magick_fails) (render_cmd ''app_icon.svg'' ''../../assets/app_icon.png'')
        (fs world_sample) = (Returned 1, fs world_sample) \<and> (1::int) \<noteq> 0) \<and>
     render_svg (rt_sample fmt se magick_fails) ''app_icon.svg'' ''../../assets/app_icon.png'' world_sample =
       Inr (world_sample\<lparr>stdout :=
              [''Error rendering app_icon.svg: '' @ se (CalledProcessError
                 [''magick'', ''-background'', ''none'', ''app_icon.svg'', ''../../assets/app_icon.png'']
                 1)]\<rparr>) \<and>
     (magick (rt_sample fmt se magick_fails)
        (composite_cmd ''tray_body.png'' ''tray_pads.png'' ''../../assets/tray_icon.png'')
        (fs world_sample) = (Returned 1, fs world_sample)) \<and>
     composite_tray_icon (rt_sample fmt se magick_fails)
         ''tray_body.png'' ''tray_pads.png'' ''../../assets/tray_icon.png'' world_sample =
       Inr (world_sample\<lparr>stdout :=
              [''Error compositing ../../assets/tray_icon.png: '' @ se (CalledProcessError
                 [''magick'', ''tray_body.png'', ''tray_pads.png'', ''-compose'', ''DstOut'',
                  ''-composite'', ''../../assets/tray_icon.png''] 1)]\<rparr>) \<and>
     (\<exists>w' removed.
        main (rt_sample fmt se magick_fails) world_sample = Inr w' \<and>
        stdout w' =
          [''Created app_icon.svg'', ''Created tray_body.svg'',
           ''Created tray_body_black.svg'', ''Created tray_pads.svg'',
           ''Error rendering app_icon.svg: '' @ se (CalledProcessError
              [''magick'', ''-background'', ''none'', ''app_icon.svg'', ''../../assets/app_icon.png''] 1),
           ''Error rendering tray_body.svg: '' @ se (CalledProcessError
              [''magick'', ''-background'', ''none'', ''tray_body.svg'', ''tray_body.png''] 1),
           ''Error rendering tray_body_black.svg: '' @ se (CalledProcessError
              [''magick'', ''-background'', ''none'', ''tray_body_black.svg'', ''tray_body_black.png''] 1),
           ''Error rendering tray_pads.svg: '' @ se (CalledProcessError
              [''magick'', ''-background'', ''none'', ''tray_pads.svg'', ''tray_pads.png''] 1),
           ''Error compositing ../../assets/tray_icon.png: '' @ se (CalledProcessError
              [''magick'', ''tray_body.png'', ''tray_pads.png'', ''-compose'', ''DstOut'', ''-composite'',
               ''../../assets/tray_icon.png''] 1),
           ''Error compositing ../../assets/tray_icon_black.png: '' @ se (CalledProcessError
              [''magick'', ''tray_body_black.png'', ''tray_pads.png'', ''-compose'', ''DstOut'',
               ''-composite'', ''../../assets/tray_icon_black.png''] 1)]
          @ map (\<lambda>f. ''Removed temp file '' @ f) removed @ [''Icon generation complete.''])"
    unfolding rt_def by (intro conjI exI)
qed

text \<open>
  Claim C10. An exception of the external call other than \<^verbatim>\<open>CalledProcessError\<close> leaves
  \<^verbatim>\<open>render_svg\<close> and \<^verbatim>\<open>composite_tray_icon\<close> as it is, and no stage after the call runs;
  a \<^verbatim>\<open>CalledProcessError\<close> is handled and printed. For the whole script: when the four
  documents have been written and the first external call raises such an exception, as
  \<^verbatim>\<open>FileNotFoundError\<close> for a missing \<^verbatim>\<open>magick\<close>, the script ends with that exception.
\<close>

theorem hard_failure:
  "(\<forall>svg_path png_path (w::world) e files.
      magick rt (render_cmd svg_path png_path) (fs w) = (Raised e, files) \<and>
      (\<forall>cmd rc. e \<noteq> CalledProcessError cmd rc) \<longrightarrow>
      render_svg rt svg_path png_path w = Inl e \<and>
      (\<forall>stages. run_stages (render_svg rt svg_path png_path # stages) w = Inl e)) \<and>
   (\<forall>body_png pads_png output_png (w::world) e files.
      magick rt (composite_cmd body_png pads_png output_png) (fs w) = (Raised e, files) \<and>
      (\<forall>cmd rc. e \<noteq> CalledProcessError cmd rc) \<longrightarrow>
      composite_tray_icon rt body_png pads_png output_png w = Inl e \<and>
      (\<forall>stages. run_stages (composite_tray_icon rt body_png pads_png output_png # stages) w = Inl e)) \<and>
   (\<forall>svg_path png_path (w::world) cmd rc files.
      magick rt (render_cmd svg_path png_path) (fs w) = (Raised (CalledProcessError cmd rc), files) \<longrightarrow>
      render_svg rt svg_path png_path w =
        Inr (w\<lparr>fs := files,
               stdout := stdout w @
                 [''Error rendering '' @ svg_path @ '': ''
                    @ py_str_exn rt (CalledProcessError cmd rc)]\<rparr>)) \<and>
   (\<forall>body_png pads_png output_png (w::world) cmd rc files.
      magick rt (composite_cmd body_png pads_png output_png) (fs w) =
        (Raised (CalledProcessError cmd rc), files) \<longrightarrow>
      composite_tray_icon rt body_png pads_png output_png w =
        Inr (w\<lparr>fs := files,
               stdout := stdout w @
                 [''Error compositing '' @ output_png @ '': ''
                    @ py_str_exn rt (CalledProcessError cmd rc)]\<rparr>)) \<and>
   (\<forall>w w2 e files.
      run_stages [create_app_icon rt, create_tray_layers rt] w = Inr w2 \<and>
      magick rt (render_cmd ''app_icon.svg'' ''../../assets/app_icon.png'') (fs w2) =
        (Raised e, files) \<and>
      (\<forall>cmd rc. e \<noteq> CalledProcessError cmd rc) \<longrightarrow>
      main rt w = Inl e)"
proof (intro conjI allI impI)
  fix svg_path png_path and w :: world and e files
  assume h: "magick rt (render_cmd svg_path png_path) (fs w) = (Raised e, files) \<and>
      (\<forall>cmd rc. e \<noteq> CalledProcessError cmd rc)"
  then have r: "render_svg rt svg_path png_path w = Inl e"
    by (intro render_svg_raised [of rt svg_path png_path w e files]) simp_all
  show "render_svg rt svg_path png_path w = Inl e"
    by (rule r)
  fix stages
  show "run_stages (render_svg rt svg_path png_path # stages) w = Inl e"
    by (simp only: run_stages.simps r sum.case)
next
  fix body_png pads_png output_png and w :: world and e files
  assume h: "magick rt (composite_cmd body_png pads_png output_png) (fs w) = (Raised e, files) \<and>
      (\<forall>cmd rc. e \<noteq> CalledProcessError cmd rc)"
  then have r: "composite_tray_icon rt body_png pads_png output_png w = Inl e"
    by (intro composite_raised [of rt body_png pads_png output_png w e files]) simp_all
  show "composite_tray_icon rt body_png pads_png output_png w = Inl e"
    by (rule r)
  fix stages
  show "run_stages (composite_tray_icon rt body_png pads_png output_png # stages) w = Inl e"
    by (simp only: run_stages.simps r sum.case)
next
  fix svg_path png_path and w :: world and cmd rc files
  assume "magick rt (render_cmd svg_path png_path) (fs w) = (Raised (CalledProcessError cmd rc), files)"
  then show "render_svg rt svg_path png_path w =
        Inr (w\<lparr>fs := files,
               stdout := stdout w @
                 [''Error rendering '' @ svg_path @ '': ''
                    @ py_str_exn rt (CalledProcessError cmd rc)]\<rparr>)"
    by (simp add: render_svg_def subprocess_run_def print_def)
next
  fix body_png pads_png output_png and w :: world and cmd rc files
  assume "magick rt (composite_cmd body_png pads_png output_png) (fs w) =
        (Raised (CalledProcessError cmd rc), files)"
  then show "composite_tray_icon rt body_png pads_png output_png w =
        Inr (w\<lparr>fs := files,
               stdout := stdout w @
                 [''Error compositing '' @ output_png @ '': ''
                    @ py_str_exn rt (CalledProcessError cmd rc)]\<rparr>)"
    by (simp add: composite_tray_icon_def subprocess_run_def print_def)
next
  fix w w2 e files
  assume h: "run_stages [create_app_icon rt, create_tray_layers rt] w = Inr w2 \<and>
      magick rt (render_cmd ''app_icon.svg'' ''../../assets/app_icon.png'') (fs w2) =
        (Raised e, files) \<and>
      (\<forall>cmd rc. e \<noteq> CalledProcessError cmd rc)"
  then have svgs: "run_stages [create_app_icon rt, create_tray_layers rt] w = Inr w2"
    and m: "magick rt (render_cmd ''app_icon.svg'' ''../../assets/app_icon.png'') (fs w2) =
        (Raised e, files)"
    and other: "\<And>cmd rc. e \<noteq> CalledProcessError cmd rc"
    by simp_all
  show "main rt w = Inl e"
    by (rule main_aborts [OF svgs m other])
qed

text \<open>
  With a program that is missing, on the sample document: both functions raise
  \<^verbatim>\<open>FileNotFoundError\<close> and so does the script, after the four documents have been written;
  with a program that raises \<^verbatim>\<open>CalledProcessError\<close>, both functions print their error line.
\<close>

theorem hard_failure_witness:
  "\<forall>fmt se.
     (magick (rt_sample fmt se magick_absent)
        (render_cmd ''app_icon.svg'' ''../../assets/app_icon.png'') (fs world_sample) =
        (Raised FileNotFoundError, fs world_sample)) \<and>
     render_svg (rt_sample fmt se magick_absent) ''app_icon.svg'' ''../../assets/app_icon.png''
       world_sample = Inl FileNotFoundError \<and>
     run_stages
       [render_svg (rt_sample fmt se magick_absent) ''app_icon.svg'' ''../../assets/app_icon.png'',
        (\<lambda>w. Inr (print ''Icon generation complete.'' w))] world_sample = Inl FileNotFoundError \<and>
     composite_tray_icon (rt_sample fmt se magick_absent)
       ''tray_body.png'' ''tray_pads.png'' ''../../assets/tray_icon.png'' world_sample =
       Inl FileNotFoundError \<and>
     render_svg (rt_sample fmt se (\<lambda>cmd files. (Raised (CalledProcessError cmd 2), files)))
       ''app_icon.svg'' ''../../assets/app_icon.png'' world_sample =
       Inr (world_sample\<lparr>stdout :=
              [''Error rendering app_icon.svg: '' @ se (CalledProcessError
                 [''magick'', ''-background'', ''none'', ''app_icon.svg'', ''../../assets/app_icon.png'']
                 2)]\<rparr>) \<and>
     composite_tray_icon (rt_sample fmt se (\<lambda>cmd files. (Raised (CalledProcessError cmd 2), files)))
       ''tray_body.png'' ''tray_pads.png'' ''../../assets/tray_icon.png'' world_sample =
       Inr (world_sample\<lparr>stdout :=
              [''Error compositing ../../assets/tray_icon.png: '' @ se (CalledProcessError
                 [''magick'', ''tray_body.png'', ''tray_pads.png'', ''-compose'', ''DstOut'',
                  ''-composite'', ''../../assets/tray_icon.png''] 2)]\<rparr>) \<and>
     (\<exists>w2.
        run_stages [create_app_icon (rt_sample fmt se magick_absent),
                    create_tray_layers (rt_sample fmt se magick_absent)] world_sample = Inr w2 \<and>
        stdout w2 = [''Created app_icon.svg'', ''Created tray_body.svg'',
          ''Created tray_body_black.svg'', ''Created tray_pads.svg'']) \<and>
     main (rt_sample fmt se magick_absent) world_sample = Inl FileNotFoundError"
proof (intro allI)
  fix fmt se
  define rt where "rt = rt_sample fmt se magick_absent"
  define rt2 where "rt2 = rt_sample fmt se (\<lambda>cmd files. (Raised (CalledProcessError cmd 2), files))"
  note hf = hard_failure [of rt]
  note A = hf [THEN conjunct1, rule_format]
  note B = hf [THEN conjunct2, THEN conjunct1, rule_format]
  note E = hf [THEN conjunct2, THEN conjunct2, THEN conjunct2, THEN conjunct2, rule_format]
  note hf2 = hard_failure [of rt2]
  note C = hf2 [THEN conjunct2, THEN conjunct2, THEN conjunct1, rule_format]
  note D = hf2 [THEN conjunct2, THEN conjunct2, THEN conjunct2, THEN conjunct1, rule_format]
  have other: "\<forall>cmd rc. FileNotFoundError \<noteq> CalledProcessError cmd rc"
    by simp
  have m1: "magick rt (render_cmd ''app_icon.svg'' ''../../assets/app_icon.png'') (fs world_sample) =
        (Raised FileNotFoundError, fs world_sample)"
    by (simp add: rt_def rt_sample_def magick_absent_def)
  have m2: "magick rt (composite_cmd ''tray_body.png'' ''tray_pads.png'' ''../../assets/tray_icon.png'')
        (fs world_sample) = (Raised FileNotFoundError, fs world_sample)"
    by (simp add: rt_def rt_sample_def magick_absent_def)
  have m3: "magick rt2 (render_cmd ''app_icon.svg'' ''../../assets/app_icon.png'') (fs world_sample) =
        (Raised (CalledProcessError (render_cmd ''app_icon.svg'' ''../../assets/app_icon.png'') 2),
         fs world_sample)"
    by (simp add: rt2_def rt_sample_def)
  have m4: "magick rt2 (composite_cmd ''tray_body.png'' ''tray_pads.png'' ''../../assets/tray_icon.png'')
        (fs world_sample) =
        (Raised (CalledProcessError
           (composite_cmd ''tray_body.png'' ''tray_pads.png'' ''../../assets/tray_icon.png'') 2),
         fs world_sample)"
    by (simp add: rt2_def rt_sample_def)
  have se: "py_str_exn rt2 = se"
    by (simp add: rt2_def rt_sample_def)
  note a = A [OF conjI [OF m1 other]]
  have r1: "render_svg rt ''app_icon.svg'' ''../../assets/app_icon.png'' world_sample =
      Inl FileNotFoundError"
    by (rule a [THEN conjunct1])
  have r2: "run_stages
       [render_svg rt ''app_icon.svg'' ''../../assets/app_icon.png'',
        (\<lambda>w. Inr (print ''Icon generation complete.'' w))] world_sample = Inl FileNotFoundError"
    by (rule a [THEN conjunct2, rule_format])
  have r3: "composite_tray_icon rt ''tray_body.png'' ''tray_pads.png'' ''../../assets/tray_icon.png''
      world_sample = Inl FileNotFoundError"
    by (rule B [OF conjI [OF m2 other], THEN conjunct1])
  have r4: "render_svg rt2 ''app_icon.svg'' ''../../assets/app_icon.png'' world_sample =
       Inr (world_sample\<lparr>stdout :=
              [''Error rendering app_icon.svg: '' @ se (CalledProcessError
                 [''magick'', ''-background'', ''none'', ''app_icon.svg'', ''../../assets/app_icon.png'']
                 2)]\<rparr>)"
    using C [OF m3] by (simp add: se world_sample_def render_cmd_def)
  have r5: "composite_tray_icon rt2 ''tray_body.png'' ''tray_pads.png'' ''../../assets/tray_icon.png''
       world_sample =
       Inr (world_sample\<lparr>stdout :=
              [''Error compositing ../../assets/tray_icon.png: '' @ se (CalledProcessError
                 [''magick'', ''tray_body.png'', ''tray_pads.png'', ''-compose'', ''DstOut'',
                  ''-composite'', ''../../assets/tray_icon.png''] 2)]\<rparr>)"
    using D [OF m4] by (simp add: se world_sample_def composite_cmd_def)
  obtain w2 where svgs: "run_stages [create_app_icon rt, create_tray_layers rt] world_sample = Inr w2"
    and out2: "stdout w2 = [''Created app_icon.svg'', ''Created tray_body.svg'',
          ''Created tray_body_black.svg'', ''Created tray_pads.svg'']"
    using svg_stages_sample [of fmt se magick_absent] unfolding rt_def by (elim exE conjE)
  have m5: "magick rt (render_cmd ''app_icon.svg'' ''../../assets/app_icon.png'') (fs w2) =
       (Raised FileNotFoundError, fs w2)"
    by (simp add: rt_def rt_sample_def magick_absent_def)
  have r6: "main rt world_sample = Inl FileNotFoundError"
    by (rule E [OF conjI [OF svgs conjI [OF m5 other]]])
  from svgs out2 have r7: "\<exists>w2.
        run_stages [create_app_icon rt, create_tray_layers rt] world_sample = Inr w2 \<and>
        stdout w2 = [''Created app_icon.svg'', ''Created tray_body.svg'',
          ''Created tray_body_black.svg'', ''Created tray_pads.svg'']"
    by (intro exI conjI)
  from m1 r1 r2 r3 r4 r5 r7 r6
  show "(magick (rt_sample fmt se magick_absent)
        (render_cmd ''app_icon.svg'' ''../../assets/app_icon.png'') (fs world_sample) =
        (Raised FileNotFoundError, fs world_sample)) \<and>
     render_svg (rt_sample fmt se magick_absent) ''app_icon.svg'' ''../../assets/app_icon.png''
       world_sample = Inl FileNotFoundError \<and>
     run_stages
       [render_svg (rt_sample fmt se magick_absent) ''app_icon.svg'' ''../../assets/app_icon.png'',
        (\<lambda>w. Inr (print ''Icon generation complete.'' w))] world_sample = Inl FileNotFoundError \<and>
     composite_tray_icon (rt_sample fmt se magick_absent)
       ''tray_body.png'' ''tray_pads.png'' ''../../assets/tray_icon.png'' world_sample =
       Inl FileNotFoundError \<and>
     render_svg (rt_sample fmt se (\<lambda>cmd files. (Raised (CalledProcessError cmd 2), files)))
       ''app_icon.svg'' ''../../assets/app_icon.png'' world_sample =
       Inr (world_sample\<lparr>stdout :=
              [''Error rendering app_icon.svg: '' @ se (CalledProcessError
                 [''magick'', ''-background'', ''none'', ''app_icon.svg'', ''../../assets/app_icon.png'']
                 2)]\<rparr>) \<and>
     composite_tray_icon (rt_sample fmt se (\<lambda>cmd files. (Raised (CalledProcessError cmd 2), files)))
       ''tray_body.png'' ''tray_pads.png'' ''../../assets/tray_icon.png'' world_sample =
       Inr (world_sample\<lparr>stdout :=
              [''Error compositing ../../assets/tray_icon.png: '' @ se (CalledProcessError
                 [''magick'', ''tray_body.png'', ''tray_pads.png'', ''-compose'', ''DstOut'',
                  ''-composite'', ''../../assets/tray_icon.png''] 2)]\<rparr>) \<and>
     (\<exists>w2.
        run_stages [create_app_icon (rt_sample fmt se magick_absent),
                    create_tray_layers (rt_sample fmt se magick_absent)] world_sample = Inr w2 \<and>
        stdout w2 = [''Created app_icon.svg'', ''Created tray_body.svg'',
          ''Created tray_body_black.svg'', ''Created tray_pads.svg'']) \<and>
     main (rt_sample fmt se magick_absent) world_sample = Inl FileNotFoundError"
    unfolding rt_def rt2_def by (intro conjI)
qed




end
